theory Spec2Isabelle
  imports Complex_Main "HOL-Library.Word" "HOL-Library.Multiset"
begin

unbundle bit_operations_syntax

section \<open>Data model\<close>

text \<open>
  A grid is the flat array of 81 numbers of the source (\<open>number[]\<close>), 0 for an empty
  cell. A read \<open>grid[i]\<close> past the end of a JavaScript array yields \<open>undefined\<close>, which is
  different from every number: \<open>cellAt\<close> returns \<open>None\<close> there.
\<close>

type_synonym grid = "nat list"

definition cellAt :: "grid \<Rightarrow> nat \<Rightarrow> nat option" where
  "cellAt grid i = (if i < length grid then Some (grid ! i) else None)"

subsection \<open>Grid geometry\<close>

text \<open>
  The object returned by \<open>getCellInfo\<close>; its fields carry the prefix \<open>ci_\<close> so that \<open>row\<close>
  and \<open>col\<close> stay free for the variables of the other functions.
\<close>

record CellInfo =
  ci_row :: nat
  ci_col :: nat
  ci_boxRow :: nat
  ci_boxCol :: nat

definition getCellInfo :: "nat \<Rightarrow> CellInfo" where
  "getCellInfo index =
     (let r = index div 9;
          c = index mod 9
      in \<lparr>ci_row = r, ci_col = c, ci_boxRow = r div 3, ci_boxCol = c div 3\<rparr>)"

definition getRowIndices :: "nat \<Rightarrow> nat list" where
  "getRowIndices r = map (\<lambda>i. r * 9 + i) [0..<9]"

definition getColIndices :: "nat \<Rightarrow> nat list" where
  "getColIndices c = map (\<lambda>i. i * 9 + c) [0..<9]"

definition getBoxIndices :: "nat \<Rightarrow> nat \<Rightarrow> nat list" where
  "getBoxIndices br bc =
     concat (map (\<lambda>r. map (\<lambda>c. (br * 3 + r) * 9 + (bc * 3 + c)) [0..<3]) [0..<3])"

definition cellsSeeEachOther :: "nat \<Rightarrow> nat \<Rightarrow> bool" where
  "cellsSeeEachOther a b =
     (let infoA = getCellInfo a;
          infoB = getCellInfo b
      in ci_row infoA = ci_row infoB \<or> ci_col infoA = ci_col infoB \<or>
         (ci_boxRow infoA = ci_boxRow infoB \<and> ci_boxCol infoA = ci_boxCol infoB))"

datatype Difficulty = Easy | Medium | Hard | Extreme

fun DIFFICULTY_CELLS :: "Difficulty \<Rightarrow> nat" where
  "DIFFICULTY_CELLS Easy = 45"
| "DIFFICULTY_CELLS Medium = 35"
| "DIFFICULTY_CELLS Hard = 28"
| "DIFFICULTY_CELLS Extreme = 22"

section \<open>Seeded random numbers (Mulberry32)\<close>

text \<open>
  \<open>SeededRandom\<close> has the one field \<open>seed\<close>, a JavaScript number that \<open>next\<close> increases
  by \<open>0x6D2B79F5\<close> without truncating it; the bit operations then work on its low 32 bits.
  The model keeps the seed as an integer (exact in the source as long as it stays below
  \<open>2^53\<close>) and the intermediate \<open>t\<close> as a 32-bit word: \<open>Math.imul\<close> is the product
  modulo \<open>2^32\<close>, \<open>>>>\<close> is \<open>drop_bit\<close>, and the sum inside the second line is wrapped
  by the \<open>^=\<close> that consumes it. The value returned is the unsigned word divided by
  \<open>2^32\<close>, which a double holds exactly. The method \<open>next\<close> is \<open>next_rng\<close> here and the
  constructor is \<open>newSeededRandom\<close>.
\<close>

record SeededRandom =
  seed :: int

definition newSeededRandom :: "int \<Rightarrow> SeededRandom" where
  "newSeededRandom s = \<lparr>seed = s\<rparr>"

definition mulberry :: "32 word \<Rightarrow> 32 word" where
  "mulberry t0 =
     (let t1 = (t0 XOR drop_bit 15 t0) * (t0 OR 1);
          t2 = t1 XOR (t1 + (t1 XOR drop_bit 7 t1) * (t1 OR 61))
      in t2 XOR drop_bit 14 t2)"

definition next_rng :: "SeededRandom \<Rightarrow> real \<times> SeededRandom" where
  "next_rng rng =
     (let s = seed rng + 0x6D2B79F5;
          t = mulberry (word_of_int s)
      in (real (unat t) / 4294967296, rng\<lparr>seed := s\<rparr>))"

definition nextInt :: "SeededRandom \<Rightarrow> int \<Rightarrow> int \<Rightarrow> int \<times> SeededRandom" where
  "nextInt rng lo hi =
     (let (r, rng') = next_rng rng
      in (\<lfloor>r * real_of_int (hi - lo + 1)\<rfloor> + lo, rng'))"

text \<open>
  \<open>getDateSeed\<close>: \<open>hash\<close> is a 32-bit integer after every round (\<open>hash & hash\<close>), so the
  round is \<open>hash * 32 - hash + char\<close> on 32-bit words; \<open>Math.abs\<close> is taken of the signed
  value. \<open>charCodeAt\<close> is the code of the character (date strings are ASCII).
\<close>

definition hashStep :: "32 word \<Rightarrow> char \<Rightarrow> 32 word" where
  "hashStep hash c = (push_bit 5 hash - hash) + of_char c"

definition getDateSeed :: "string \<Rightarrow> int" where
  "getDateSeed dateStr = \<bar>sint (foldl hashStep 0 dateStr)\<bar>"

section \<open>Shuffling\<close>

text \<open>
  \<open>shuffleArraySeeded\<close> and \<open>shuffleArray\<close> are the same Fisher-Yates loop, from the last
  index down to 1, and differ only in where the random number comes from: \<open>rng.next()\<close> or
  \<open>Math.random()\<close>. The loop is written once, over the function \<open>nxt\<close> that draws a number
  and returns the new state of its source. \<open>Math.random\<close> is the ambient source of the
  process: its state is the sequence of numbers it is going to return.

  The index \<open>j\<close> is \<open>Math.floor(r * (i + 1))\<close>. For the seeded source \<open>r\<close> is a multiple of
  \<open>2^-32\<close> and the product is exact in the source as long as the array has fewer than
  \<open>2^21\<close> members (it has 9 or 81). For \<open>Math.random\<close> the source rounds the product,
  which can move \<open>j\<close> to the next index but not beyond \<open>i\<close>; each index from 0 to \<open>i\<close> is
  the exact result for some number in the unit interval, so a statement about all
  sequences of such numbers covers every run of the source. The swap is the
  destructuring assignment: both reads come before both writes.
\<close>

fun shuffleLoop :: "('s \<Rightarrow> real \<times> 's) \<Rightarrow> nat \<Rightarrow> 'a list \<Rightarrow> 's \<Rightarrow> 'a list \<times> 's" where
  "shuffleLoop nxt 0 result s = (result, s)"
| "shuffleLoop nxt (Suc n) result s =
     (let i = Suc n;
          (r, s') = nxt s;
          j = nat \<lfloor>r * real (i + 1)\<rfloor>
      in shuffleLoop nxt n ((result[i := result ! j])[j := result ! i]) s')"

definition shuffleArraySeeded :: "'a list \<Rightarrow> SeededRandom \<Rightarrow> 'a list \<times> SeededRandom" where
  "shuffleArraySeeded array rng = shuffleLoop next_rng (length array - 1) array rng"

type_synonym MathRandom = "nat \<Rightarrow> real"

definition Math_random :: "MathRandom \<Rightarrow> real \<times> MathRandom" where
  "Math_random w = (w 0, \<lambda>n. w (Suc n))"

definition shuffleArray :: "'a list \<Rightarrow> MathRandom \<Rightarrow> 'a list \<times> MathRandom" where
  "shuffleArray array w = shuffleLoop Math_random (length array - 1) array w"

section \<open>Generating a complete grid\<close>

definition canPlace :: "grid \<Rightarrow> nat \<Rightarrow> nat \<Rightarrow> nat \<Rightarrow> bool" where
  "canPlace grid row col num =
     (if list_ex (\<lambda>c. cellAt grid (row * 9 + c) = Some num) [0..<9] then False
      else if list_ex (\<lambda>r. cellAt grid (r * 9 + col) = Some num) [0..<9] then False
      else
        let boxRow = (row div 3) * 3;
            boxCol = (col div 3) * 3
        in if list_ex (\<lambda>r. list_ex (\<lambda>c.
                 cellAt grid ((boxRow + r) * 9 + (boxCol + c)) = Some num) [0..<3]) [0..<3]
           then False else True)"

text \<open>
  \<open>solve\<close> is the closure of \<open>generateCompleteGrid\<close> and of \<open>generateSeededGrid\<close> (the two
  copies differ in the shuffle they call, and \<open>canPlaceSeeded\<close> is \<open>canPlace\<close> on the
  captured grid). It mutates the captured grid and the random source, which the model
  passes and returns. \<open>tryNumbers\<close> is the \<open>for (const num of numbers)\<close> loop. The closure
  is entered at position 0 and moves one cell at a time, so \<open>pos\<close> never exceeds 81; the
  second test of \<open>solve\<close> only makes the function total outside that range.
\<close>

function solve :: "(nat list \<Rightarrow> 's \<Rightarrow> nat list \<times> 's) \<Rightarrow> nat \<Rightarrow> grid \<times> 's \<Rightarrow> bool \<times> grid \<times> 's"
  and tryNumbers :: "(nat list \<Rightarrow> 's \<Rightarrow> nat list \<times> 's) \<Rightarrow> nat \<Rightarrow> nat list \<Rightarrow> grid \<times> 's
      \<Rightarrow> bool \<times> grid \<times> 's"
where
  "solve shuf pos (grid, rng) =
     (if pos = 81 then (True, grid, rng)
      else if 81 < pos then (False, grid, rng)
      else
        let (numbers, rng') = shuf [1, 2, 3, 4, 5, 6, 7, 8, 9] rng
        in tryNumbers shuf pos numbers (grid, rng'))"
| "tryNumbers shuf pos [] (grid, rng) = (False, grid, rng)"
| "tryNumbers shuf pos (num # rest) (grid, rng) =
     (if canPlace grid (pos div 9) (pos mod 9) num then
        (case solve shuf (pos + 1) (grid[pos := num], rng) of
           (True, st) \<Rightarrow> (True, st)
         | (False, grid', rng') \<Rightarrow> tryNumbers shuf pos rest (grid'[pos := 0], rng'))
      else tryNumbers shuf pos rest (grid, rng))"
  by pat_completeness auto
termination
  by (relation "inv_image (less_than <*lex*> less_than <*lex*> less_than)
        (\<lambda>x. case x of
           Inl (shuf, pos, st) \<Rightarrow> (if 81 \<le> pos then 0 else 82 - pos, 1::nat, 0::nat)
         | Inr (shuf, pos, ns, st) \<Rightarrow> (if 81 \<le> pos then 1 else 82 - pos, 0, length ns))")
     auto

definition generateCompleteGrid :: "MathRandom \<Rightarrow> grid \<times> MathRandom" where
  "generateCompleteGrid w = snd (solve shuffleArray 0 (replicate 81 0, w))"

definition generateSeededGrid :: "SeededRandom \<Rightarrow> grid \<times> SeededRandom" where
  "generateSeededGrid rng = snd (solve shuffleArraySeeded 0 (replicate 81 0, rng))"

section \<open>Validating a grid\<close>

text \<open>
  One unit of \<open>isValidGrid\<close>: the values are scanned in order with the set \<open>seen\<close>; a
  value different from 0 that was seen before makes the grid invalid.
\<close>

fun scanUnit :: "nat option list \<Rightarrow> nat option list \<Rightarrow> bool" where
  "scanUnit seen [] = True"
| "scanUnit seen (v # vs) =
     (if v \<noteq> Some 0 then
        (if v \<in> set seen then False else scanUnit (v # seen) vs)
      else scanUnit seen vs)"

definition isValidGrid :: "grid \<Rightarrow> bool" where
  "isValidGrid grid =
     (if \<not> list_all (\<lambda>row. scanUnit [] (map (\<lambda>col. cellAt grid (row * 9 + col)) [0..<9])) [0..<9]
      then False
      else if \<not> list_all (\<lambda>col. scanUnit [] (map (\<lambda>row. cellAt grid (row * 9 + col)) [0..<9])) [0..<9]
      then False
      else if \<not> list_all (\<lambda>boxRow. list_all (\<lambda>boxCol.
                scanUnit [] (concat (map (\<lambda>r. map (\<lambda>c.
                  cellAt grid ((boxRow * 3 + r) * 9 + (boxCol * 3 + c))) [0..<3]) [0..<3])))
              [0..<3]) [0..<3]
      then False
      else True)"

section \<open>Creating a puzzle\<close>

record Puzzle =
  puzzle :: grid
  solution :: grid

record DailyPuzzle = Puzzle +
  date :: string

text \<open>
  The removal loop \<open>for (const pos of positions)\<close> with its counter \<open>removed\<close>.
\<close>

fun removeCells :: "nat \<Rightarrow> nat \<Rightarrow> nat list \<Rightarrow> grid \<Rightarrow> grid" where
  "removeCells cellsToRemove removed [] pz = pz"
| "removeCells cellsToRemove removed (pos # rest) pz =
     (if removed \<ge> cellsToRemove then pz
      else removeCells cellsToRemove (removed + 1) rest (pz[pos := 0]))"

text \<open>
  \<open>createPuzzle\<close> calls itself again when the generated grid is not valid: a call that
  never returns is the value \<open>None\<close>. The state of \<open>Math.random\<close> is passed through.
\<close>

partial_function (option) createPuzzle :: "Difficulty \<Rightarrow> MathRandom \<Rightarrow> (Puzzle \<times> MathRandom) option"
where
  "createPuzzle difficulty w =
     (case generateCompleteGrid w of (sol, w1) \<Rightarrow>
        if \<not> isValidGrid sol then createPuzzle difficulty w1
        else
          let cellsToReveal = DIFFICULTY_CELLS difficulty;
              cellsToRemove = 81 - cellsToReveal;
              (positions, w2) = shuffleArray [0..<81] w1
          in Some (\<lparr>puzzle = removeCells cellsToRemove 0 positions sol, solution = sol\<rparr>, w2))"

definition createDailyPuzzleFromSolution ::
  "grid \<Rightarrow> SeededRandom \<Rightarrow> string \<Rightarrow> Difficulty \<Rightarrow> DailyPuzzle" where
  "createDailyPuzzleFromSolution sol rng dateStr difficulty =
     (let cellsToReveal = DIFFICULTY_CELLS difficulty;
          cellsToRemove = 81 - cellsToReveal;
          (positions, rng') = shuffleArraySeeded [0..<81] rng
      in \<lparr>puzzle = removeCells cellsToRemove 0 positions sol, solution = sol, date = dateStr\<rparr>)"

definition createDailyPuzzle :: "string \<Rightarrow> Difficulty \<Rightarrow> DailyPuzzle" where
  "createDailyPuzzle dateStr difficulty =
     (let seed0 = getDateSeed dateStr;
          rng = newSeededRandom seed0;
          (sol, rng1) = generateSeededGrid rng
      in if \<not> isValidGrid sol then
           (let rng2 = newSeededRandom (seed0 + 1);
                (sol2, rng3) = generateSeededGrid rng2
            in createDailyPuzzleFromSolution sol2 rng3 dateStr difficulty)
         else createDailyPuzzleFromSolution sol rng1 dateStr difficulty)"

section \<open>The hint solver\<close>

subsection \<open>Sets, notes and text\<close>

text \<open>
  A JavaScript \<open>Set<number>\<close> is the list of its members in insertion order, without
  repetition: \<open>has\<close> is membership, \<open>size\<close> is the length, and \<open>Array.from\<close>, \<open>forEach\<close>
  and \<open>values().next().value\<close> follow the list. \<open>newSet\<close> is \<open>new Set(array)\<close>: it keeps
  the first occurrence of each member.
\<close>

type_synonym numset = "nat list"

definition setAdd :: "'a list \<Rightarrow> 'a \<Rightarrow> 'a list" where
  "setAdd s x = (if x \<in> set s then s else s @ [x])"

definition newSet :: "'a list \<Rightarrow> 'a list" where
  "newSet xs = foldl setAdd [] xs"

text \<open>
  \<open>notes[i]\<close>: every use in the source treats a missing entry (\<open>undefined\<close>) as a set
  without members (\<open>cellNotes && cellNotes.size > 0\<close>, \<open>notes[c]?.has(n)\<close>,
  \<open>notes[c]?.size > 0\<close>), and so does \<open>notesAt\<close>.
\<close>

definition notesAt :: "numset list \<Rightarrow> nat \<Rightarrow> numset" where
  "notesAt notes i = (if i < length notes then notes ! i else [])"

text \<open>Numbers in template strings, and \<open>join(', ')\<close>.\<close>

definition digitChar :: "nat \<Rightarrow> char" where
  "digitChar n = ''0123456789'' ! n"

function showNat :: "nat \<Rightarrow> string" where
  "showNat n = (if n < 10 then [digitChar n] else showNat (n div 10) @ [digitChar (n mod 10)])"
  by pat_completeness auto
termination
  by (relation "measure id") auto

declare showNat.simps [simp del]

fun joinNums :: "nat list \<Rightarrow> string" where
  "joinNums [] = []"
| "joinNums [x] = showNat x"
| "joinNums (x # y # ys) = showNat x @ '', '' @ joinNums (y # ys)"

subsection \<open>Hints\<close>

datatype HighlightType = Target | Eliminator | PairCells | TripleCells | Affected

text \<open>
  A highlight is the pair of its cells and its type (the optional field \<open>number\<close> of the
  source is set by no detector); an eliminated number is the pair of the number and
  the reason; a note to remove is the pair of the cell and the number. \<open>notesToRemove\<close>
  is optional in the source: \<open>None\<close> when the hint has no such field.
\<close>

record Hint =
  cellIndex :: nat
  hintValue :: nat
  technique :: string
  explanation :: string
  highlights :: "(nat list \<times> HighlightType) list"
  eliminatedNumbers :: "(nat \<times> string) list"
  notesToRemove :: "(nat \<times> nat) list option"

text \<open>
  A loop that returns the first hint found: \<open>for (x of xs) { const r = f(x); if (r)
  return r; }\<close> followed by \<open>return null\<close>.
\<close>

fun firstSome :: "('a \<Rightarrow> 'b option) \<Rightarrow> 'a list \<Rightarrow> 'b option" where
  "firstSome f [] = None"
| "firstSome f (x # xs) = (case f x of Some h \<Rightarrow> Some h | None \<Rightarrow> firstSome f xs)"

text \<open>The pairs \<open>(xs[a], xs[b])\<close> with \<open>a < b\<close> and the triples, in the order of the nested loops.\<close>

fun pairsOf :: "'a list \<Rightarrow> ('a \<times> 'a) list" where
  "pairsOf [] = []"
| "pairsOf (x # xs) = map (Pair x) xs @ pairsOf xs"

fun triplesOf :: "'a list \<Rightarrow> ('a \<times> 'a \<times> 'a) list" where
  "triplesOf [] = []"
| "triplesOf (x # xs) = map (Pair x) (pairsOf xs) @ triplesOf xs"

text \<open>
  The three loops that close most detectors: rows 0 to 8, columns 0 to 8, boxes in
  row-major order, each unit with the name it has in the explanation.
\<close>

definition overUnits :: "(nat list \<Rightarrow> string \<Rightarrow> Hint option) \<Rightarrow> Hint option" where
  "overUnits checkUnit =
     (case firstSome (\<lambda>r. checkUnit (getRowIndices r) (''row '' @ showNat (r + 1))) [0..<9] of
        Some h \<Rightarrow> Some h
      | None \<Rightarrow>
     (case firstSome (\<lambda>c. checkUnit (getColIndices c) (''column '' @ showNat (c + 1))) [0..<9] of
        Some h \<Rightarrow> Some h
      | None \<Rightarrow>
        firstSome (\<lambda>br. firstSome (\<lambda>bc.
          checkUnit (getBoxIndices br bc) (''box '' @ showNat (br * 3 + bc + 1))) [0..<3]) [0..<3]))"

subsection \<open>Candidates\<close>

definition usedIn :: "grid \<Rightarrow> nat list \<Rightarrow> nat option list" where
  "usedIn grid indices = filter (\<lambda>v. v \<noteq> Some 0) (map (cellAt grid) indices)"

definition getPossibleValues :: "grid \<Rightarrow> nat \<Rightarrow> nat list" where
  "getPossibleValues grid index =
     (if cellAt grid index \<noteq> Some 0 then []
      else
        let info = getCellInfo index;
            used = usedIn grid (getRowIndices (ci_row info)) @
                   usedIn grid (getColIndices (ci_col info)) @
                   usedIn grid (getBoxIndices (ci_boxRow info) (ci_boxCol info))
        in filter (\<lambda>n. Some n \<notin> set used) [1, 2, 3, 4, 5, 6, 7, 8, 9])"

definition getCandidates :: "grid \<Rightarrow> numset list \<Rightarrow> nat \<Rightarrow> nat list" where
  "getCandidates grid notes index =
     (if cellAt grid index \<noteq> Some 0 then []
      else
        let possible = getPossibleValues grid index;
            cellNotes = notesAt notes index
        in if length cellNotes > 0 then filter (\<lambda>n. n \<in> set cellNotes) possible
           else possible)"

definition getAllCandidates :: "grid \<Rightarrow> numset list \<Rightarrow> numset list" where
  "getAllCandidates grid notes = map (\<lambda>i. newSet (getCandidates grid notes i)) [0..<81]"

text \<open>
  \<open>getEliminationInfo\<close>: the entries are triples of number, reason and cell. For an index
  beyond the array (there is none in a grid of 81 cells) the source records one entry
  whose number is \<open>undefined\<close>; the model records nothing.
\<close>

definition elimStep :: "grid \<Rightarrow> string \<Rightarrow> nat list \<times> (nat \<times> string \<times> nat) list \<Rightarrow> nat
    \<Rightarrow> nat list \<times> (nat \<times> string \<times> nat) list" where
  "elimStep grid reason st i =
     (case cellAt grid i of
        None \<Rightarrow> st
      | Some v \<Rightarrow>
          if v \<noteq> 0 \<and> v \<notin> set (fst st) then (fst st @ [v], snd st @ [(v, reason, i)])
          else st)"

definition getEliminationInfo :: "grid \<Rightarrow> nat \<Rightarrow> (nat \<times> string \<times> nat) list" where
  "getEliminationInfo grid index =
     (let info = getCellInfo index;
          st1 = foldl (elimStep grid (''row '' @ showNat (ci_row info + 1))) ([], [])
                  (getRowIndices (ci_row info));
          st2 = foldl (elimStep grid (''column '' @ showNat (ci_col info + 1))) st1
                  (getColIndices (ci_col info));
          boxNumber = ci_boxRow info * 3 + ci_boxCol info + 1;
          st3 = foldl (elimStep grid (''box '' @ showNat boxNumber)) st2
                  (getBoxIndices (ci_boxRow info) (ci_boxCol info))
      in snd st3)"

subsection \<open>Beginner techniques\<close>

text \<open>
  \<open>findLastFreeCell\<close>: the body of its three loops, for one unit; \<open>label\<close> is the text
  that starts the explanation (\<open>Row 3\<close>, \<open>Column 1\<close>, \<open>Box 9\<close>). \<open>if (value)\<close> fails for a
  missing first member and for 0.
\<close>

definition lastFreeIn :: "grid \<Rightarrow> numset list \<Rightarrow> nat list \<Rightarrow> string \<Rightarrow> Hint option" where
  "lastFreeIn grid candidates indices label =
     (let empty = filter (\<lambda>i. cellAt grid i = Some 0) indices
      in if length empty = 1 then
           (let cell = empty ! 0
            in case candidates ! cell of
                 [] \<Rightarrow> None
               | v # rest \<Rightarrow>
                   if v \<noteq> 0 then
                     Some \<lparr>cellIndex = cell, hintValue = v,
                       technique = ''Last Free Cell'',
                       explanation = label @ '' has only one empty cell. The missing number is ''
                         @ showNat v @ ''.'',
                       highlights = [([cell], Target),
                         (filter (\<lambda>i. cellAt grid i \<noteq> Some 0) indices, Eliminator)],
                       eliminatedNumbers = [],
                       notesToRemove = None\<rparr>
                   else None)
         else None)"

definition findLastFreeCell :: "grid \<Rightarrow> numset list \<Rightarrow> Hint option" where
  "findLastFreeCell grid candidates =
     (case firstSome (\<lambda>r. lastFreeIn grid candidates (getRowIndices r)
             (''Row '' @ showNat (r + 1))) [0..<9] of
        Some h \<Rightarrow> Some h
      | None \<Rightarrow>
     (case firstSome (\<lambda>c. lastFreeIn grid candidates (getColIndices c)
             (''Column '' @ showNat (c + 1))) [0..<9] of
        Some h \<Rightarrow> Some h
      | None \<Rightarrow>
        firstSome (\<lambda>br. firstSome (\<lambda>bc. lastFreeIn grid candidates (getBoxIndices br bc)
             (''Box '' @ showNat (br * 3 + bc + 1))) [0..<3]) [0..<3]))"

definition nakedSingleAt :: "grid \<Rightarrow> numset list \<Rightarrow> nat \<Rightarrow> Hint option" where
  "nakedSingleAt grid candidates i =
     (if cellAt grid i \<noteq> Some 0 then None
      else if length (candidates ! i) = 1 then
        (case candidates ! i of
           [] \<Rightarrow> None
         | v # rest \<Rightarrow>
             let elimInfo = getEliminationInfo grid i;
                 info = getCellInfo i
             in Some \<lparr>cellIndex = i, hintValue = v,
                  technique = ''Naked Single'',
                  explanation = ''Cell R'' @ showNat (ci_row info + 1) @ ''C''
                    @ showNat (ci_col info + 1) @ '' can only be '' @ showNat v
                    @ ''. All other numbers are blocked.'',
                  highlights = [([i], Target),
                    (newSet (map (\<lambda>e. snd (snd e)) elimInfo), Eliminator)],
                  eliminatedNumbers = map (\<lambda>e. (fst e, ''in '' @ fst (snd e))) elimInfo,
                  notesToRemove = None\<rparr>)
      else None)"

definition findNakedSingle :: "grid \<Rightarrow> numset list \<Rightarrow> Hint option" where
  "findNakedSingle grid candidates = firstSome (nakedSingleAt grid candidates) [0..<81]"

text \<open>
  \<open>findHiddenSingle\<close>: the body of the loop over \<open>num\<close> for one unit; \<open>expl num cell\<close> is
  the explanation, which names the unit and the place of the cell in it.
\<close>

definition hiddenSingleIn ::
  "grid \<Rightarrow> numset list \<Rightarrow> nat list \<Rightarrow> (nat \<Rightarrow> nat \<Rightarrow> string) \<Rightarrow> Hint option" where
  "hiddenSingleIn grid candidates indices expl =
     firstSome (\<lambda>num.
       if list_ex (\<lambda>i. cellAt grid i = Some num) indices then None
       else
         let possibleCells = filter (\<lambda>i. num \<in> set (candidates ! i)) indices
         in if length possibleCells = 1 then
              (let cell = possibleCells ! 0
               in Some \<lparr>cellIndex = cell, hintValue = num,
                    technique = ''Hidden Single'',
                    explanation = expl num cell,
                    highlights = [([cell], Target),
                      (filter (\<lambda>i. i \<noteq> cell \<and> cellAt grid i = Some 0) indices, Affected)],
                    eliminatedNumbers = [],
                    notesToRemove = None\<rparr>)
            else None) [1, 2, 3, 4, 5, 6, 7, 8, 9]"

definition findHiddenSingle :: "grid \<Rightarrow> numset list \<Rightarrow> Hint option" where
  "findHiddenSingle grid candidates =
     (case firstSome (\<lambda>r. hiddenSingleIn grid candidates (getRowIndices r)
             (\<lambda>num cell. ''In row '' @ showNat (r + 1) @ '', '' @ showNat num
                @ '' can only go at column '' @ showNat (ci_col (getCellInfo cell) + 1)
                @ ''. Other cells are blocked.'')) [0..<9] of
        Some h \<Rightarrow> Some h
      | None \<Rightarrow>
     (case firstSome (\<lambda>c. hiddenSingleIn grid candidates (getColIndices c)
             (\<lambda>num cell. ''In column '' @ showNat (c + 1) @ '', '' @ showNat num
                @ '' can only go at row '' @ showNat (ci_row (getCellInfo cell) + 1)
                @ ''. Other cells are blocked.'')) [0..<9] of
        Some h \<Rightarrow> Some h
      | None \<Rightarrow>
        firstSome (\<lambda>br. firstSome (\<lambda>bc. hiddenSingleIn grid candidates (getBoxIndices br bc)
             (\<lambda>num cell. ''In box '' @ showNat (br * 3 + bc + 1) @ '', '' @ showNat num
                @ '' can only go at R'' @ showNat (ci_row (getCellInfo cell) + 1)
                @ ''C'' @ showNat (ci_col (getCellInfo cell) + 1)
                @ ''. Other cells are blocked.'')) [0..<3]) [0..<3]))"

subsection \<open>Invalid notes\<close>

definition invalidNotesAt :: "grid \<Rightarrow> numset list \<Rightarrow> nat \<Rightarrow> Hint option" where
  "invalidNotesAt grid notes i =
     (if cellAt grid i \<noteq> Some 0 then None
      else
        let cellNotes = notesAt notes i
        in if length cellNotes = 0 then None
           else
             let possible = getPossibleValues grid i;
                 invalidNotes = filter (\<lambda>note. note \<notin> set possible) cellNotes;
                 eliminatorCells = concat (map (\<lambda>note.
                     case find (\<lambda>e. fst e = note) (getEliminationInfo grid i) of
                       Some blocker \<Rightarrow> [snd (snd blocker)]
                     | None \<Rightarrow> []) invalidNotes)
             in if length invalidNotes > 0 then
                  (let info = getCellInfo i
                   in Some \<lparr>cellIndex = i, hintValue = 0,
                        technique = ''Invalid Notes'',
                        explanation = ''Notes {'' @ joinNums invalidNotes @ ''} at R''
                          @ showNat (ci_row info + 1) @ ''C'' @ showNat (ci_col info + 1)
                          @ '' are blocked. Remove them.'',
                        highlights = [([i], Target), (newSet eliminatorCells, Eliminator)],
                        eliminatedNumbers = map (\<lambda>n. (n, ''blocked'')) invalidNotes,
                        notesToRemove = Some (map (\<lambda>n. (i, n)) invalidNotes)\<rparr>)
                else None)"

definition findInvalidNotes :: "grid \<Rightarrow> numset list \<Rightarrow> numset list \<Rightarrow> Hint option" where
  "findInvalidNotes grid notes candidates = firstSome (invalidNotesAt grid notes) [0..<81]"

subsection \<open>Intermediate techniques\<close>

text \<open>
  The notes to remove of the naked pair and the naked triple: for every affected cell
  with notes, the numbers of the pattern that are among its notes.
\<close>

definition nakedNotesToRemove :: "numset list \<Rightarrow> nat list \<Rightarrow> nat list \<Rightarrow> (nat \<times> nat) list" where
  "nakedNotesToRemove notes nums affected =
     concat (map (\<lambda>cell.
       let cellNotes = notesAt notes cell
       in if length cellNotes = 0 then []
          else map (\<lambda>n. (cell, n)) (filter (\<lambda>n. n \<in> set cellNotes) nums)) affected)"

definition nakedPairsUnit ::
  "grid \<Rightarrow> numset list \<Rightarrow> numset list \<Rightarrow> nat list \<Rightarrow> string \<Rightarrow> Hint option" where
  "nakedPairsUnit grid candidates notes indices unitName =
     (let emptyCells = filter (\<lambda>i. cellAt grid i = Some 0 \<and> length (candidates ! i) = 2) indices
      in firstSome (\<lambda>(cellA, cellB).
           let candsA = candidates ! cellA;
               candsB = candidates ! cellB
           in if length candsA = 2 \<and> length candsB = 2 \<and>
                 candsA ! 0 = candsB ! 0 \<and> candsA ! 1 = candsB ! 1 then
                (let pairNums = candsA;
                     affected = filter (\<lambda>i. i \<noteq> cellA \<and> i \<noteq> cellB \<and> cellAt grid i = Some 0 \<and>
                         (pairNums ! 0 \<in> set (candidates ! i) \<or>
                          pairNums ! 1 \<in> set (candidates ! i))) indices;
                     toRemove = nakedNotesToRemove notes pairNums affected
                 in if length toRemove > 0 then
                      Some \<lparr>cellIndex = cellA, hintValue = 0,
                        technique = ''Naked Pairs'',
                        explanation = ''Cells form a naked pair with {'' @ joinNums pairNums
                          @ ''} in '' @ unitName
                          @ ''. These numbers can be removed from other cells.'',
                        highlights = [([cellA, cellB], PairCells),
                          (filter (\<lambda>c. length (notesAt notes c) > 0) affected, Affected)],
                        eliminatedNumbers = map (\<lambda>n. (n, ''forms naked pair'')) pairNums,
                        notesToRemove = Some toRemove\<rparr>
                    else None)
              else None) (pairsOf emptyCells))"

definition findNakedPairs :: "grid \<Rightarrow> numset list \<Rightarrow> numset list \<Rightarrow> Hint option" where
  "findNakedPairs grid candidates notes = overUnits (nakedPairsUnit grid candidates notes)"

definition nakedTriplesUnit ::
  "grid \<Rightarrow> numset list \<Rightarrow> numset list \<Rightarrow> nat list \<Rightarrow> string \<Rightarrow> Hint option" where
  "nakedTriplesUnit grid candidates notes indices unitName =
     (let emptyCells = filter (\<lambda>i. cellAt grid i = Some 0 \<and>
            length (candidates ! i) \<ge> 2 \<and> length (candidates ! i) \<le> 3) indices
      in firstSome (\<lambda>(ca, cb, cc).
           let cells = [ca, cb, cc];
               allCands = newSet (concat (map (\<lambda>cell. candidates ! cell) cells))
           in if length allCands = 3 then
                (let tripleNums = allCands;
                     affected = filter (\<lambda>i. i \<notin> set cells \<and> cellAt grid i = Some 0 \<and>
                         list_ex (\<lambda>n. n \<in> set (candidates ! i)) tripleNums) indices;
                     toRemove = nakedNotesToRemove notes tripleNums affected
                 in if length toRemove > 0 then
                      Some \<lparr>cellIndex = cells ! 0, hintValue = 0,
                        technique = ''Naked Triples'',
                        explanation = ''Three cells form a naked triple with {''
                          @ joinNums tripleNums @ ''} in '' @ unitName
                          @ ''. Remove these from other cells.'',
                        highlights = [(cells, TripleCells),
                          (filter (\<lambda>c. length (notesAt notes c) > 0) affected, Affected)],
                        eliminatedNumbers = map (\<lambda>n. (n, ''forms naked triple'')) tripleNums,
                        notesToRemove = Some toRemove\<rparr>
                    else None)
              else None) (triplesOf emptyCells))"

definition findNakedTriples :: "grid \<Rightarrow> numset list \<Rightarrow> numset list \<Rightarrow> Hint option" where
  "findNakedTriples grid candidates notes = overUnits (nakedTriplesUnit grid candidates notes)"

text \<open>
  The notes to remove of the hidden pair and the hidden triple: for every cell of the
  pattern with notes, the notes that are not numbers of the pattern and are possible
  values of the cell, in the order of the notes.
\<close>

definition hiddenNotesToRemove ::
  "grid \<Rightarrow> numset list \<Rightarrow> nat list \<Rightarrow> nat list \<Rightarrow> (nat \<times> nat) list" where
  "hiddenNotesToRemove grid notes nums patternCells =
     concat (map (\<lambda>cell.
       let cellNotes = notesAt notes cell
       in if length cellNotes > 0 then
            map (\<lambda>n. (cell, n))
              (filter (\<lambda>n. n \<notin> set nums \<and> n \<in> set (getPossibleValues grid cell)) cellNotes)
          else []) patternCells)"

definition hiddenPairsUnit ::
  "grid \<Rightarrow> numset list \<Rightarrow> numset list \<Rightarrow> nat list \<Rightarrow> string \<Rightarrow> Hint option" where
  "hiddenPairsUnit grid candidates notes indices unitName =
     (let emptyCells = filter (\<lambda>i. cellAt grid i = Some 0) indices
      in firstSome (\<lambda>(n1, n2).
           let cellsWithN1 = filter (\<lambda>i. n1 \<in> set (candidates ! i)) emptyCells;
               cellsWithN2 = filter (\<lambda>i. n2 \<in> set (candidates ! i)) emptyCells
           in if length cellsWithN1 = 2 \<and> length cellsWithN2 = 2 \<and>
                 cellsWithN1 ! 0 = cellsWithN2 ! 0 \<and> cellsWithN1 ! 1 = cellsWithN2 ! 1 then
                (let pairCells = cellsWithN1;
                     toRemove = hiddenNotesToRemove grid notes [n1, n2] pairCells
                 in if length toRemove > 0 then
                      Some \<lparr>cellIndex = pairCells ! 0, hintValue = 0,
                        technique = ''Hidden Pairs'',
                        explanation = ''{'' @ showNat n1 @ '', '' @ showNat n2
                          @ ''} can only go in these two cells in '' @ unitName
                          @ ''. Remove other candidates from them.'',
                        highlights = [(pairCells, PairCells)],
                        eliminatedNumbers = map (\<lambda>t. (snd t, ''hidden pair'')) toRemove,
                        notesToRemove = Some toRemove\<rparr>
                    else None)
              else None) (pairsOf [1, 2, 3, 4, 5, 6, 7, 8, 9]))"

definition findHiddenPairs :: "grid \<Rightarrow> numset list \<Rightarrow> numset list \<Rightarrow> Hint option" where
  "findHiddenPairs grid candidates notes = overUnits (hiddenPairsUnit grid candidates notes)"

definition hiddenTriplesUnit ::
  "grid \<Rightarrow> numset list \<Rightarrow> numset list \<Rightarrow> nat list \<Rightarrow> string \<Rightarrow> Hint option" where
  "hiddenTriplesUnit grid candidates notes indices unitName =
     (let emptyCells = filter (\<lambda>i. cellAt grid i = Some 0) indices
      in firstSome (\<lambda>(n1, n2, n3).
           let cellsWithAny = filter (\<lambda>i. n1 \<in> set (candidates ! i) \<or>
                   n2 \<in> set (candidates ! i) \<or> n3 \<in> set (candidates ! i)) emptyCells
           in if length cellsWithAny = 3 then
                (let toRemove = hiddenNotesToRemove grid notes [n1, n2, n3] cellsWithAny
                 in if length toRemove > 0 then
                      Some \<lparr>cellIndex = cellsWithAny ! 0, hintValue = 0,
                        technique = ''Hidden Triples'',
                        explanation = ''{'' @ showNat n1 @ '', '' @ showNat n2 @ '', ''
                          @ showNat n3 @ ''} can only go in these three cells in '' @ unitName
                          @ ''. Remove other candidates.'',
                        highlights = [(cellsWithAny, TripleCells)],
                        eliminatedNumbers = map (\<lambda>t. (snd t, ''hidden triple'')) toRemove,
                        notesToRemove = Some toRemove\<rparr>
                    else None)
              else None) (triplesOf [1, 2, 3, 4, 5, 6, 7, 8, 9]))"

definition findHiddenTriples :: "grid \<Rightarrow> numset list \<Rightarrow> numset list \<Rightarrow> Hint option" where
  "findHiddenTriples grid candidates notes = overUnits (hiddenTriplesUnit grid candidates notes)"

text \<open>
  The notes to remove of the pointing pair, the X-Wing, the Y-Wing and the Swordfish:
  the affected cells that have the number among their notes.
\<close>

definition notedCells :: "numset list \<Rightarrow> nat \<Rightarrow> nat list \<Rightarrow> nat list" where
  "notedCells notes num affected = filter (\<lambda>cell. num \<in> set (notesAt notes cell)) affected"

text \<open>
  \<open>findPointingPairs\<close>: one line of the box, a row (\<open>lineName = ''row''\<close>) or a column;
  \<open>lineOf\<close> gives the row or the column of a cell and \<open>lineIndices\<close> the cells of the
  line. Then the body of the loop over \<open>num\<close>: the row is tried before the column.
\<close>

definition pointingLine ::
  "numset list \<Rightarrow> numset list \<Rightarrow> nat list \<Rightarrow> nat \<Rightarrow> nat \<Rightarrow> nat list \<Rightarrow>
   (nat \<Rightarrow> nat) \<Rightarrow> (nat \<Rightarrow> nat list) \<Rightarrow> string \<Rightarrow> Hint option" where
  "pointingLine candidates notes boxIndices boxNum num cellsWithNum lineOf lineIndices lineName =
     (let lines = newSet (map lineOf cellsWithNum)
      in if length lines = 1 then
           (let line = lines ! 0;
                affected = filter (\<lambda>i. i \<notin> set boxIndices \<and> num \<in> set (candidates ! i))
                             (lineIndices line);
                toRemove = map (\<lambda>cell. (cell, num)) (notedCells notes num affected)
            in if length toRemove > 0 then
                 Some \<lparr>cellIndex = cellsWithNum ! 0, hintValue = 0,
                   technique = (if length cellsWithNum = 2 then ''Pointing Pairs''
                                else ''Pointing Triples''),
                   explanation = showNat num @ '' in box '' @ showNat boxNum
                     @ '' is limited to '' @ lineName @ '' '' @ showNat (line + 1)
                     @ ''. Remove '' @ showNat num @ '' from other cells in this ''
                     @ lineName @ ''.'',
                   highlights = [(cellsWithNum,
                       if length cellsWithNum = 2 then PairCells else TripleCells),
                     (notedCells notes num affected, Affected)],
                   eliminatedNumbers = [(num, ''pointing from box '' @ showNat boxNum)],
                   notesToRemove = Some toRemove\<rparr>
               else None)
         else None)"

definition pointingInBox :: "grid \<Rightarrow> numset list \<Rightarrow> numset list \<Rightarrow> nat \<Rightarrow> nat \<Rightarrow> Hint option" where
  "pointingInBox grid candidates notes br bc =
     (let boxIndices = getBoxIndices br bc;
          boxNum = br * 3 + bc + 1
      in firstSome (\<lambda>num.
           if list_ex (\<lambda>i. cellAt grid i = Some num) boxIndices then None
           else
             let cellsWithNum = filter (\<lambda>i. num \<in> set (candidates ! i)) boxIndices
             in if length cellsWithNum < 2 \<or> length cellsWithNum > 3 then None
                else
                  (case pointingLine candidates notes boxIndices boxNum num cellsWithNum
                          (\<lambda>i. ci_row (getCellInfo i)) getRowIndices ''row'' of
                     Some h \<Rightarrow> Some h
                   | None \<Rightarrow>
                       pointingLine candidates notes boxIndices boxNum num cellsWithNum
                          (\<lambda>i. ci_col (getCellInfo i)) getColIndices ''column''))
         [1, 2, 3, 4, 5, 6, 7, 8, 9])"

definition findPointingPairs :: "grid \<Rightarrow> numset list \<Rightarrow> numset list \<Rightarrow> Hint option" where
  "findPointingPairs grid candidates notes =
     firstSome (\<lambda>br. firstSome (\<lambda>bc. pointingInBox grid candidates notes br bc) [0..<3]) [0..<3]"

subsection \<open>Advanced techniques\<close>

text \<open>
  \<open>findXWing\<close>, for one number: the rows, then the columns. The function \<open>crossAffected\<close>
  collects, line by line, the cells outside the pattern that have the number as a
  candidate.
\<close>

definition crossAffected ::
  "numset list \<Rightarrow> nat \<Rightarrow> nat list \<Rightarrow> (nat \<Rightarrow> nat list) \<Rightarrow> nat list \<Rightarrow> nat list" where
  "crossAffected candidates num patternCells lineIndices lines =
     concat (map (\<lambda>l. filter (\<lambda>i. i \<notin> set patternCells \<and> num \<in> set (candidates ! i))
                          (lineIndices l)) lines)"

definition xWingRows :: "numset list \<Rightarrow> numset list \<Rightarrow> nat \<Rightarrow> Hint option" where
  "xWingRows candidates notes num =
     firstSome (\<lambda>row1.
       let row1Cells = filter (\<lambda>i. num \<in> set (candidates ! i)) (getRowIndices row1)
       in if length row1Cells \<noteq> 2 then None
          else
            let cols = map (\<lambda>i. ci_col (getCellInfo i)) row1Cells
            in firstSome (\<lambda>row2.
                 let row2Cells = filter (\<lambda>i. num \<in> set (candidates ! i)) (getRowIndices row2)
                 in if length row2Cells \<noteq> 2 then None
                    else
                      let row2Cols = map (\<lambda>i. ci_col (getCellInfo i)) row2Cells
                      in if cols ! 0 = row2Cols ! 0 \<and> cols ! 1 = row2Cols ! 1 then
                           (let xWingCells = row1Cells @ row2Cells;
                                affected = crossAffected candidates num xWingCells
                                             getColIndices cols;
                                toRemove = map (\<lambda>cell. (cell, num))
                                             (notedCells notes num affected)
                            in if length toRemove > 0 then
                                 Some \<lparr>cellIndex = row1Cells ! 0, hintValue = 0,
                                   technique = ''X-Wing'',
                                   explanation = ''X-Wing on '' @ showNat num @ '' in rows ''
                                     @ showNat (row1 + 1) @ '' & '' @ showNat (row2 + 1)
                                     @ '', columns '' @ showNat (cols ! 0 + 1) @ '' & ''
                                     @ showNat (cols ! 1 + 1) @ ''. Remove '' @ showNat num
                                     @ '' from other cells in these columns.'',
                                   highlights = [(xWingCells, PairCells),
                                     (notedCells notes num affected, Affected)],
                                   eliminatedNumbers = [(num, ''X-Wing elimination'')],
                                   notesToRemove = Some toRemove\<rparr>
                               else None)
                         else None) [row1 + 1..<9]) [0..<9]"

definition xWingCols :: "numset list \<Rightarrow> numset list \<Rightarrow> nat \<Rightarrow> Hint option" where
  "xWingCols candidates notes num =
     firstSome (\<lambda>col1.
       let col1Cells = filter (\<lambda>i. num \<in> set (candidates ! i)) (getColIndices col1)
       in if length col1Cells \<noteq> 2 then None
          else
            let rows = map (\<lambda>i. ci_row (getCellInfo i)) col1Cells
            in firstSome (\<lambda>col2.
                 let col2Cells = filter (\<lambda>i. num \<in> set (candidates ! i)) (getColIndices col2)
                 in if length col2Cells \<noteq> 2 then None
                    else
                      let col2Rows = map (\<lambda>i. ci_row (getCellInfo i)) col2Cells
                      in if rows ! 0 = col2Rows ! 0 \<and> rows ! 1 = col2Rows ! 1 then
                           (let xWingCells = col1Cells @ col2Cells;
                                affected = crossAffected candidates num xWingCells
                                             getRowIndices rows;
                                toRemove = map (\<lambda>cell. (cell, num))
                                             (notedCells notes num affected)
                            in if length toRemove > 0 then
                                 Some \<lparr>cellIndex = col1Cells ! 0, hintValue = 0,
                                   technique = ''X-Wing'',
                                   explanation = ''X-Wing on '' @ showNat num @ '' in columns ''
                                     @ showNat (col1 + 1) @ '' & '' @ showNat (col2 + 1)
                                     @ '', rows '' @ showNat (rows ! 0 + 1) @ '' & ''
                                     @ showNat (rows ! 1 + 1) @ ''. Remove '' @ showNat num
                                     @ '' from other cells in these rows.'',
                                   highlights = [(xWingCells, PairCells),
                                     (notedCells notes num affected, Affected)],
                                   eliminatedNumbers = [(num, ''X-Wing elimination'')],
                                   notesToRemove = Some toRemove\<rparr>
                               else None)
                         else None) [col1 + 1..<9]) [0..<9]"

definition findXWing :: "grid \<Rightarrow> numset list \<Rightarrow> numset list \<Rightarrow> Hint option" where
  "findXWing grid candidates notes =
     firstSome (\<lambda>num.
       case xWingRows candidates notes num of
         Some h \<Rightarrow> Some h
       | None \<Rightarrow> xWingCols candidates notes num) [1, 2, 3, 4, 5, 6, 7, 8, 9]"

text \<open>
  \<open>findYWing\<close>: one of the two tests on a pair of wings. The first test has \<open>x = a\<close> and
  \<open>y = b\<close> (wing 1 has \<open>a\<close>, wing 2 has \<open>b\<close>), the reverse test has \<open>x = b\<close> and \<open>y = a\<close>.
\<close>

definition yWingTest ::
  "grid \<Rightarrow> numset list \<Rightarrow> numset list \<Rightarrow> nat \<Rightarrow> nat \<Rightarrow> nat \<Rightarrow> nat \<Rightarrow> nat \<Rightarrow> nat \<Rightarrow> nat
   \<Rightarrow> Hint option" where
  "yWingTest grid candidates notes pivot a b wing1 wing2 x y =
     (if x \<in> set (candidates ! wing1) \<and> y \<in> set (candidates ! wing2) then
        (let c1 = find (\<lambda>n. n \<noteq> x) (candidates ! wing1);
             c2 = find (\<lambda>n. n \<noteq> y) (candidates ! wing2)
         in case c1 of
              None \<Rightarrow> None
            | Some c \<Rightarrow>
                if c1 = c2 then
                  (let affected = filter (\<lambda>i. i \<noteq> pivot \<and> i \<noteq> wing1 \<and> i \<noteq> wing2 \<and>
                           cellAt grid i = Some 0 \<and> c \<in> set (candidates ! i) \<and>
                           cellsSeeEachOther i wing1 \<and> cellsSeeEachOther i wing2) [0..<81];
                       toRemove = map (\<lambda>cell. (cell, c)) (notedCells notes c affected)
                   in if length toRemove > 0 then
                        Some \<lparr>cellIndex = pivot, hintValue = 0,
                          technique = ''Y-Wing'',
                          explanation = ''Y-Wing: Pivot has {'' @ showNat a @ '','' @ showNat b
                            @ ''}, wings have {'' @ showNat x @ '','' @ showNat c @ ''} and {''
                            @ showNat y @ '','' @ showNat c
                            @ ''}. Cells seeing both wings cannot have '' @ showNat c @ ''.'',
                          highlights = [([pivot], Target), ([wing1, wing2], PairCells),
                            (notedCells notes c affected, Affected)],
                          eliminatedNumbers = [(c, ''Y-Wing elimination'')],
                          notesToRemove = Some toRemove\<rparr>
                      else None)
                else None)
      else None)"

definition findYWing :: "grid \<Rightarrow> numset list \<Rightarrow> numset list \<Rightarrow> Hint option" where
  "findYWing grid candidates notes =
     (let biValueCells = filter (\<lambda>i. cellAt grid i = Some 0 \<and> length (candidates ! i) = 2)
                           [0..<81]
      in firstSome (\<lambda>pivot.
           let pivotCands = candidates ! pivot;
               a = pivotCands ! 0;
               b = pivotCands ! 1;
               wings = filter (\<lambda>cell. cell \<noteq> pivot \<and> cellsSeeEachOther pivot cell \<and>
                         ((a \<in> set (candidates ! cell)) \<noteq> (b \<in> set (candidates ! cell))))
                       biValueCells
           in firstSome (\<lambda>(wing1, wing2).
                case yWingTest grid candidates notes pivot a b wing1 wing2 a b of
                  Some h \<Rightarrow> Some h
                | None \<Rightarrow> yWingTest grid candidates notes pivot a b wing1 wing2 b a)
              (pairsOf wings)) biValueCells)"

text \<open>
  \<open>findSwordfish\<close>, for one number: the rows, then the columns. \<open>linesWithNum\<close> is the
  list \<open>rowsWithNum\<close> (or \<open>colsWithNum\<close>): the lines that have the number as a candidate
  in 2 or 3 cells, each with the crossing lines of those cells.
\<close>

definition linesWithNum ::
  "numset list \<Rightarrow> nat \<Rightarrow> (nat \<Rightarrow> nat list) \<Rightarrow> (nat \<Rightarrow> nat) \<Rightarrow> (nat \<times> nat list) list" where
  "linesWithNum candidates num lineIndices crossOf =
     concat (map (\<lambda>l.
       let cross = map crossOf (filter (\<lambda>i. num \<in> set (candidates ! i)) (lineIndices l))
       in if length cross \<ge> 2 \<and> length cross \<le> 3 then [(l, cross)] else []) [0..<9])"

definition swordfishCellsOf :: "numset list \<Rightarrow> nat \<Rightarrow> nat list \<Rightarrow> nat list \<Rightarrow> nat list" where
  "swordfishCellsOf candidates num rows cols =
     concat (map (\<lambda>r. filter (\<lambda>idx. num \<in> set (candidates ! idx))
                          (map (\<lambda>c. r * 9 + c) cols)) rows)"

definition swordfishRows :: "numset list \<Rightarrow> numset list \<Rightarrow> nat \<Rightarrow> Hint option" where
  "swordfishRows candidates notes num =
     (let rowsWithNum = linesWithNum candidates num getRowIndices (\<lambda>i. ci_col (getCellInfo i))
      in firstSome (\<lambda>(r1, r2, r3).
           let allCols = newSet (snd r1 @ snd r2 @ snd r3)
           in if length allCols = 3 then
                (let rows = [fst r1, fst r2, fst r3];
                     cols = allCols;
                     swordfishCells = swordfishCellsOf candidates num rows cols;
                     affected = crossAffected candidates num swordfishCells getColIndices cols;
                     toRemove = map (\<lambda>cell. (cell, num)) (notedCells notes num affected)
                 in if length toRemove > 0 then
                      Some \<lparr>cellIndex = swordfishCells ! 0, hintValue = 0,
                        technique = ''Swordfish'',
                        explanation = ''Swordfish on '' @ showNat num @ '' in rows ''
                          @ joinNums (map (\<lambda>r. r + 1) rows) @ '' and columns ''
                          @ joinNums (map (\<lambda>c. c + 1) cols) @ ''. Remove '' @ showNat num
                          @ '' from other cells in these columns.'',
                        highlights = [(swordfishCells, TripleCells),
                          (notedCells notes num affected, Affected)],
                        eliminatedNumbers = [(num, ''Swordfish elimination'')],
                        notesToRemove = Some toRemove\<rparr>
                    else None)
              else None) (triplesOf rowsWithNum))"

definition swordfishCols :: "numset list \<Rightarrow> numset list \<Rightarrow> nat \<Rightarrow> Hint option" where
  "swordfishCols candidates notes num =
     (let colsWithNum = linesWithNum candidates num getColIndices (\<lambda>i. ci_row (getCellInfo i))
      in firstSome (\<lambda>(c1, c2, c3).
           let allRows = newSet (snd c1 @ snd c2 @ snd c3)
           in if length allRows = 3 then
                (let cols = [fst c1, fst c2, fst c3];
                     rows = allRows;
                     swordfishCells = swordfishCellsOf candidates num rows cols;
                     affected = crossAffected candidates num swordfishCells getRowIndices rows;
                     toRemove = map (\<lambda>cell. (cell, num)) (notedCells notes num affected)
                 in if length toRemove > 0 then
                      Some \<lparr>cellIndex = swordfishCells ! 0, hintValue = 0,
                        technique = ''Swordfish'',
                        explanation = ''Swordfish on '' @ showNat num @ '' in columns ''
                          @ joinNums (map (\<lambda>c. c + 1) cols) @ '' and rows ''
                          @ joinNums (map (\<lambda>r. r + 1) rows) @ ''. Remove '' @ showNat num
                          @ '' from other cells in these rows.'',
                        highlights = [(swordfishCells, TripleCells),
                          (notedCells notes num affected, Affected)],
                        eliminatedNumbers = [(num, ''Swordfish elimination'')],
                        notesToRemove = Some toRemove\<rparr>
                    else None)
              else None) (triplesOf colsWithNum))"

definition findSwordfish :: "grid \<Rightarrow> numset list \<Rightarrow> numset list \<Rightarrow> Hint option" where
  "findSwordfish grid candidates notes =
     firstSome (\<lambda>num.
       case swordfishRows candidates notes num of
         Some h \<Rightarrow> Some h
       | None \<Rightarrow> swordfishCols candidates notes num) [1, 2, 3, 4, 5, 6, 7, 8, 9]"

subsection \<open>The hint\<close>

definition getHint :: "grid \<Rightarrow> grid \<Rightarrow> numset list \<Rightarrow> Hint option" where
  "getHint grid sol notes =
     (let candidates = getAllCandidates grid notes
      in case findInvalidNotes grid notes candidates of Some h \<Rightarrow> Some h | None \<Rightarrow>
        (case findLastFreeCell grid candidates of Some h \<Rightarrow> Some h | None \<Rightarrow>
        (case findNakedSingle grid candidates of Some h \<Rightarrow> Some h | None \<Rightarrow>
        (case findHiddenSingle grid candidates of Some h \<Rightarrow> Some h | None \<Rightarrow>
        (case findPointingPairs grid candidates notes of Some h \<Rightarrow> Some h | None \<Rightarrow>
        (case findNakedPairs grid candidates notes of Some h \<Rightarrow> Some h | None \<Rightarrow>
        (case findHiddenPairs grid candidates notes of Some h \<Rightarrow> Some h | None \<Rightarrow>
        (case findNakedTriples grid candidates notes of Some h \<Rightarrow> Some h | None \<Rightarrow>
        (case findHiddenTriples grid candidates notes of Some h \<Rightarrow> Some h | None \<Rightarrow>
        (case findXWing grid candidates notes of Some h \<Rightarrow> Some h | None \<Rightarrow>
        (case findYWing grid candidates notes of Some h \<Rightarrow> Some h | None \<Rightarrow>
        (case findSwordfish grid candidates notes of Some h \<Rightarrow> Some h | None \<Rightarrow>
         None))))))))))))"

section \<open>Notions used in the statements and proofs\<close>

subsection \<open>Random sources\<close>

text \<open>
  \<open>Math.random()\<close> returns a number in the interval from 0 (inclusive) to 1 (exclusive):
  \<open>streamOK\<close> says so of every number the ambient source is going to return. \<open>randOK\<close> is
  the same contract for any source, relative to an invariant of its state, and \<open>shufOK\<close>
  says that a shuffle returns a permutation of its argument and keeps the invariant.
\<close>

definition streamOK :: "MathRandom \<Rightarrow> bool" where
  "streamOK w = (\<forall>k. 0 \<le> w k \<and> w k < 1)"

definition randOK :: "('s \<Rightarrow> bool) \<Rightarrow> ('s \<Rightarrow> real \<times> 's) \<Rightarrow> bool" where
  "randOK I nxt = (\<forall>s. I s \<longrightarrow> 0 \<le> fst (nxt s) \<and> fst (nxt s) < 1 \<and> I (snd (nxt s)))"

definition shufOK :: "('s \<Rightarrow> bool) \<Rightarrow> (nat list \<Rightarrow> 's \<Rightarrow> nat list \<times> 's) \<Rightarrow> bool" where
  "shufOK I shuf = (\<forall>xs s. I s \<longrightarrow> mset (fst (shuf xs s)) = mset xs \<and> I (snd (shuf xs s)))"

subsection \<open>The invariant of the backtracking search\<close>

text \<open>
  \<open>partialOK pos g\<close>: the cells before \<open>pos\<close> hold digits 1-9 without a clash between two
  cells that see each other, and the cells from \<open>pos\<close> on are empty. \<open>partialOK 81 g\<close> is a
  complete grid. \<open>noExt pos g ns\<close>: no complete grid agrees with \<open>g\<close> before \<open>pos\<close> and
  has one of \<open>ns\<close> at \<open>pos\<close>. \<open>solveSpec\<close> is what a call of \<open>solve\<close> or of the loop
  \<open>tryNumbers\<close> returns: success with a complete grid, or failure with the grid restored
  and no completion missed.
\<close>

definition partialOK :: "nat \<Rightarrow> grid \<Rightarrow> bool" where
  "partialOK pos g =
     (length g = 81 \<and>
      (\<forall>i<pos. 1 \<le> g ! i \<and> g ! i \<le> 9) \<and>
      (\<forall>i<81. pos \<le> i \<longrightarrow> g ! i = 0) \<and>
      (\<forall>i<pos. \<forall>j<pos. i \<noteq> j \<and> cellsSeeEachOther i j \<longrightarrow> g ! i \<noteq> g ! j))"

definition noExt :: "nat \<Rightarrow> grid \<Rightarrow> nat set \<Rightarrow> bool" where
  "noExt pos g ns = (\<not> (\<exists>sol. partialOK 81 sol \<and> (\<forall>i<pos. sol ! i = g ! i) \<and> sol ! pos \<in> ns))"

definition solveSpec :: "('s \<Rightarrow> bool) \<Rightarrow> nat \<Rightarrow> nat set \<Rightarrow> grid \<Rightarrow> bool \<times> grid \<times> 's \<Rightarrow> bool" where
  "solveSpec I pos ns g res =
     (case res of (b, g', s') \<Rightarrow>
        I s' \<and> (if b then partialOK 81 g' else g' = g \<and> noExt pos g ns))"

text \<open>
  A complete grid exists; the search from the empty grid can therefore not fail.
  \<open>completeCheck\<close> is the executable test used on it: every cell holds a digit that
  \<open>canPlace\<close> accepts once the cell itself is emptied.
\<close>

definition exampleSolution :: grid where
  "exampleSolution =
     [1, 2, 3, 4, 5, 6, 7, 8, 9,
      4, 5, 6, 7, 8, 9, 1, 2, 3,
      7, 8, 9, 1, 2, 3, 4, 5, 6,
      2, 3, 4, 5, 6, 7, 8, 9, 1,
      5, 6, 7, 8, 9, 1, 2, 3, 4,
      8, 9, 1, 2, 3, 4, 5, 6, 7,
      3, 4, 5, 6, 7, 8, 9, 1, 2,
      6, 7, 8, 9, 1, 2, 3, 4, 5,
      9, 1, 2, 3, 4, 5, 6, 7, 8]"

definition completeCheck :: "grid \<Rightarrow> bool" where
  "completeCheck g =
     (length g = 81 \<and> list_all (\<lambda>v. 1 \<le> v \<and> v \<le> 9) g \<and>
      list_all (\<lambda>pos. canPlace (g[pos := 0]) (pos div 9) (pos mod 9) (g ! pos)) [0..<81])"

subsection \<open>Units and solved grids\<close>

text \<open>
  A unit is a list of 9 different cells of the grid, any two of which see each other.
  A solved grid, in the words of the specification: in every row, column and box the 9
  values are a permutation of the digits 1-9.
\<close>

definition unitOK :: "nat list \<Rightarrow> bool" where
  "unitOK u = (distinct u \<and> length u = 9 \<and> (\<forall>i\<in>set u. i < 81) \<and>
     (\<forall>i\<in>set u. \<forall>j\<in>set u. i \<noteq> j \<longrightarrow> cellsSeeEachOther i j))"

definition isPermutationOfDigits :: "nat list \<Rightarrow> bool" where
  "isPermutationOfDigits vs = (mset vs = mset [1, 2, 3, 4, 5, 6, 7, 8, 9])"

definition solvedGrid :: "grid \<Rightarrow> bool" where
  "solvedGrid g =
     (length g = 81 \<and>
      (\<forall>r<9. isPermutationOfDigits (map ((!) g) (getRowIndices r))) \<and>
      (\<forall>c<9. isPermutationOfDigits (map ((!) g) (getColIndices c))) \<and>
      (\<forall>br<3. \<forall>bc<3. isPermutationOfDigits (map ((!) g) (getBoxIndices br bc))))"

definition zeroAt :: "nat \<Rightarrow> grid \<Rightarrow> grid" where
  "zeroAt p g = g[p := 0]"

subsection \<open>Notions for the hint solver\<close>

text \<open>
  The specification's reading of the priority order: the first result in a list of
  detector results that is a hint, none if every result is none.
\<close>

fun firstResult :: "'a option list \<Rightarrow> 'a option" where
  "firstResult [] = None"
| "firstResult (None # rs) = firstResult rs"
| "firstResult (Some h # rs) = Some h"

text \<open>
  \<open>noEmpty\<close>: no cell of the grid is empty. \<open>noCands\<close>: every one of the 81 candidate
  sets is empty.
\<close>

definition noEmpty :: "grid \<Rightarrow> bool" where
  "noEmpty grid = (\<forall>i. cellAt grid i \<noteq> Some 0)"

definition noCands :: "numset list \<Rightarrow> bool" where
  "noCands c = (\<forall>i<81. c ! i = [])"






subsection \<open>Concrete grids\<close>


definition noSets :: "numset list" where
  "noSets = replicate 81 []"


definition twoSinglesGrid :: grid where
  "twoSinglesGrid =
     [0, 2, 3, 4, 0, 6, 7, 8, 9,
      0, 5, 6, 7, 0, 9, 1, 2, 3,
      7, 8, 9, 1, 2, 3, 4, 5, 6,
      2, 3, 4, 5, 6, 7, 8, 9, 1,
      5, 6, 7, 8, 9, 1, 2, 3, 4,
      8, 9, 1, 2, 3, 4, 5, 6, 7,
      3, 4, 5, 6, 7, 8, 9, 1, 2,
      6, 7, 8, 9, 1, 2, 3, 4, 5,
      9, 1, 2, 3, 4, 5, 6, 7, 8]"

definition lateSinglesGrid :: grid where
  "lateSinglesGrid =
     [1, 2, 3, 4, 0, 6, 7, 8, 0,
      4, 5, 6, 7, 0, 9, 1, 2, 0,
      7, 8, 9, 1, 2, 3, 4, 5, 6,
      2, 3, 4, 5, 6, 7, 8, 9, 1,
      5, 6, 7, 8, 9, 1, 2, 3, 4,
      8, 9, 1, 2, 3, 4, 5, 6, 7,
      3, 4, 5, 6, 7, 8, 9, 1, 2,
      6, 7, 8, 9, 1, 2, 3, 4, 5,
      9, 1, 2, 3, 4, 5, 6, 7, 8]"

section \<open>The generator: shuffles, backtracking, validation\<close>

subsection \<open>Shuffles are permutations\<close>

lemma draw_in_range:
  assumes "0 \<le> r" "r < 1"
  shows "nat \<lfloor>r * real (Suc n)\<rfloor> \<le> n"
proof -
  have "r * real (Suc n) < real (Suc n)" using assms by (simp add: mult_less_cancel_right2)
  then have "\<lfloor>r * real (Suc n)\<rfloor> < int (Suc n)" by (simp add: floor_less_iff)
  then show ?thesis by linarith
qed

lemma shuffleLoop_perm:
  assumes "randOK I nxt"
  shows "I s \<Longrightarrow> n < length xs \<Longrightarrow>
    mset (fst (shuffleLoop nxt n xs s)) = mset xs \<and> I (snd (shuffleLoop nxt n xs s))"
proof (induction n arbitrary: xs s)
  case 0
  then show ?case by simp
next
  case (Suc n)
  obtain r s' where nx: "nxt s = (r, s')" by (cases "nxt s")
  from assms Suc.prems(1) have "0 \<le> fst (nxt s) \<and> fst (nxt s) < 1 \<and> I (snd (nxt s))"
    unfolding randOK_def by blast
  with nx have r: "0 \<le> r" "r < 1" and Is': "I s'" by simp_all
  define j where "j = nat \<lfloor>r * real (Suc n + 1)\<rfloor>"
  have j: "j \<le> Suc n" unfolding j_def using draw_in_range[OF r, of "Suc n"] by simp
  define ys where "ys = (xs[Suc n := xs ! j])[j := xs ! Suc n]"
  have m: "mset ys = mset xs"
    unfolding ys_def using j Suc.prems(2) by (intro mset_swap) simp_all
  have len: "n < length ys" unfolding ys_def using Suc.prems(2) by simp
  have step: "shuffleLoop nxt (Suc n) xs s = shuffleLoop nxt n ys s'"
    unfolding ys_def j_def by (simp only: shuffleLoop.simps Let_def nx prod.case)
  from Suc.IH[OF Is' len] m show ?case by (simp only: step)
qed

lemma shuffleLoop_empty: "shuffleLoop nxt 0 xs s = (xs, s)" by simp

lemma shuffle_perm_gen:
  assumes "randOK I nxt" "I s"
  shows "mset (fst (shuffleLoop nxt (length xs - 1) xs s)) = mset xs \<and>
         I (snd (shuffleLoop nxt (length xs - 1) xs s))"
proof (cases xs)
  case Nil then show ?thesis using assms by simp
next
  case (Cons a list)
  then have "length xs - 1 < length xs" by simp
  from shuffleLoop_perm[OF assms(1) assms(2) this] show ?thesis .
qed

lemma unit_of_word: "0 \<le> real (unat w) / 4294967296 \<and> real (unat w) / 4294967296 < 1"
  for w :: "32 word"
proof -
  have "unat w < 2 ^ 32" using unsigned_less[of w, where 'a=nat] by simp
  then have "real (unat w) < real (2 ^ 32)" by (simp only: of_nat_less_iff)
  then have "real (unat w) / 4294967296 < 1" by simp
  moreover have "0 \<le> real (unat w) / 4294967296"
  proof (rule divide_nonneg_nonneg)
    show "0 \<le> real (unat w)" by (rule of_nat_0_le_iff)
    show "(0::real) \<le> 4294967296" by simp
  qed
  ultimately show ?thesis by blast
qed

lemma next_rng_range: "0 \<le> fst (next_rng rng) \<and> fst (next_rng rng) < 1"
  unfolding next_rng_def Let_def fst_conv by (rule unit_of_word)

lemma randOK_next_rng: "randOK (\<lambda>s. True) next_rng"
  using next_rng_range by (simp add: randOK_def)

lemma randOK_Math_random: "randOK streamOK Math_random"
  by (simp add: randOK_def Math_random_def streamOK_def)

lemma shufOK_seeded: "shufOK (\<lambda>s. True) shuffleArraySeeded"
  unfolding shufOK_def shuffleArraySeeded_def
  using shuffle_perm_gen[OF randOK_next_rng] by blast

lemma shufOK_random: "shufOK streamOK shuffleArray"
  unfolding shufOK_def shuffleArray_def
  using shuffle_perm_gen[OF randOK_Math_random] by blast

subsection \<open>What canPlace tests\<close>

text \<open>
  \<open>canPlace\<close> at the row and column of a position accepts a number exactly when no cell
  that sees the position holds it.
\<close>

lemma see_iff: "cellsSeeEachOther a b \<longleftrightarrow>
   a div 9 = b div 9 \<or> a mod 9 = b mod 9 \<or> (a div 9 div 3 = b div 9 div 3 \<and> a mod 9 div 3 = b mod 9 div 3)"
  by (simp add: cellsSeeEachOther_def getCellInfo_def Let_def)

lemma dm9: "x < 9 \<Longrightarrow> (a * 9 + x) div 9 = a" "x < 9 \<Longrightarrow> (a * 9 + x) mod 9 = x" for a x :: nat
  by simp_all

lemma dm3: "x < 3 \<Longrightarrow> (a * 3 + x) div 3 = a" "x < 3 \<Longrightarrow> (a * 3 + x) mod 3 = x" for a x :: nat
  by simp_all

lemma canPlace_iff:
  "canPlace g r c n \<longleftrightarrow>
     (\<forall>k<9. cellAt g (r * 9 + k) \<noteq> Some n) \<and>
     (\<forall>k<9. cellAt g (k * 9 + c) \<noteq> Some n) \<and>
     (\<forall>k<3. \<forall>l<3. cellAt g ((r div 3 * 3 + k) * 9 + (c div 3 * 3 + l)) \<noteq> Some n)"
proof -
  have ex: "list_ex P [0..<m] \<longleftrightarrow> (\<exists>k<m. P k)" for P and m :: nat
    unfolding list_ex_iff set_upt atLeastLessThan_iff Bex_def by (simp only: le0 simp_thms)
  show ?thesis
    unfolding canPlace_def Let_def ex
    by (simp only: if_bool_eq_conj simp_thms not_ex de_Morgan_conj not_not imp_conv_disj not_less)
       blast
qed

lemma canPlace_peers:
  assumes "length g = 81" "pos < 81"
  shows "canPlace g (pos div 9) (pos mod 9) n \<longleftrightarrow> (\<forall>j<81. cellsSeeEachOther pos j \<longrightarrow> g ! j \<noteq> n)"
proof
  assume cp: "canPlace g (pos div 9) (pos mod 9) n"
  from cp[unfolded canPlace_iff]
  have rw: "\<And>k. k < 9 \<Longrightarrow> cellAt g (pos div 9 * 9 + k) \<noteq> Some n"
    and cl: "\<And>k. k < 9 \<Longrightarrow> cellAt g (k * 9 + pos mod 9) \<noteq> Some n"
    and bx: "\<And>k l. k < 3 \<Longrightarrow> l < 3 \<Longrightarrow>
          cellAt g ((pos div 9 div 3 * 3 + k) * 9 + (pos mod 9 div 3 * 3 + l)) \<noteq> Some n"
    by blast+
  show "\<forall>j<81. cellsSeeEachOther pos j \<longrightarrow> g ! j \<noteq> n"
  proof (intro allI impI)
    fix j assume j: "j < 81" and see: "cellsSeeEachOther pos j"
    have ca: "cellAt g j = Some (g ! j)" using j assms(1) by (simp add: cellAt_def)
    have dm: "j div 9 * 9 + j mod 9 = j" by (rule div_mult_mod_eq)
    from see[unfolded see_iff] consider (r) "pos div 9 = j div 9" | (c) "pos mod 9 = j mod 9"
      | (b) "pos div 9 div 3 = j div 9 div 3" "pos mod 9 div 3 = j mod 9 div 3"
      by blast
    then have "cellAt g j \<noteq> Some n"
    proof cases
      case r
      have "cellAt g (pos div 9 * 9 + j mod 9) \<noteq> Some n" by (rule rw) simp
      then show ?thesis by (simp only: r dm simp_thms)
    next
      case c
      have "j div 9 < 9" using j by simp
      then have "cellAt g (j div 9 * 9 + pos mod 9) \<noteq> Some n" by (rule cl)
      then show ?thesis by (simp only: c dm simp_thms)
    next
      case b
      have e1: "j div 9 div 3 * 3 + j div 9 mod 3 = j div 9" by (rule div_mult_mod_eq)
      have e2: "j mod 9 div 3 * 3 + j mod 9 mod 3 = j mod 9" by (rule div_mult_mod_eq)
      have "cellAt g ((pos div 9 div 3 * 3 + j div 9 mod 3) * 9 +
               (pos mod 9 div 3 * 3 + j mod 9 mod 3)) \<noteq> Some n"
        by (rule bx) simp_all
      then show ?thesis by (simp only: b e1 e2 dm simp_thms)
    qed
    then show "g ! j \<noteq> n" by (simp add: ca)
  qed
next
  assume a: "\<forall>j<81. cellsSeeEachOther pos j \<longrightarrow> g ! j \<noteq> n"
  have key: "cellAt g j \<noteq> Some n" if "cellsSeeEachOther pos j" for j
    using a that assms by (auto simp: cellAt_def)
  show "canPlace g (pos div 9) (pos mod 9) n"
    unfolding canPlace_iff
  proof (intro conjI allI impI)
    fix k :: nat assume "k < 9"
    then have "cellsSeeEachOther pos (pos div 9 * 9 + k)" by (simp only: see_iff dm9 simp_thms)
    then show "cellAt g (pos div 9 * 9 + k) \<noteq> Some n" by (rule key)
  next
    fix k :: nat assume "k < 9"
    have "pos mod 9 < 9" by simp
    then have "cellsSeeEachOther pos (k * 9 + pos mod 9)" by (simp only: see_iff dm9 simp_thms)
    then show "cellAt g (k * 9 + pos mod 9) \<noteq> Some n" by (rule key)
  next
    fix k l :: nat assume kl: "k < 3" "l < 3"
    define br where "br = pos div 9 div 3"
    define bc where "bc = pos mod 9 div 3"
    have "pos mod 9 < 3 * 3" by simp
    then have bc: "bc < 3" unfolding bc_def by (rule less_mult_imp_div_less)
    have "bc * 3 + l < 9" using bc kl by linarith
    then have d: "((br * 3 + k) * 9 + (bc * 3 + l)) div 9 = br * 3 + k"
      and m: "((br * 3 + k) * 9 + (bc * 3 + l)) mod 9 = bc * 3 + l" by (simp_all only: dm9)
    have "(br * 3 + k) div 3 = br" "(bc * 3 + l) div 3 = bc" using kl by (simp_all only: dm3)
    then have "cellsSeeEachOther pos ((br * 3 + k) * 9 + (bc * 3 + l))"
      unfolding see_iff d m by (simp only: br_def bc_def simp_thms)
    then show "cellAt g ((pos div 9 div 3 * 3 + k) * 9 + (pos mod 9 div 3 * 3 + l)) \<noteq> Some n"
      unfolding br_def bc_def by (rule key)
  qed
qed

subsection \<open>The search keeps its invariant and misses no completion\<close>

lemma see_sym: "cellsSeeEachOther a b = cellsSeeEachOther b a"
  unfolding see_iff by (simp only: eq_commute[of "a div 9"] eq_commute[of "a mod 9"]
      eq_commute[of "a div 9 div 3"] eq_commute[of "a mod 9 div 3"])

lemma place_ok:
  assumes ok: "partialOK pos g" and pos: "pos < 81" and n: "1 \<le> n" "n \<le> 9"
    and cp: "canPlace g (pos div 9) (pos mod 9) n"
  shows "partialOK (Suc pos) (g[pos := n])"
proof -
  from ok have len: "length g = 81"
    and rng: "\<And>i. i < pos \<Longrightarrow> 1 \<le> g ! i \<and> g ! i \<le> 9"
    and zero: "\<And>i. i < 81 \<Longrightarrow> pos \<le> i \<Longrightarrow> g ! i = 0"
    and cons: "\<And>i j. i < pos \<Longrightarrow> j < pos \<Longrightarrow> i \<noteq> j \<Longrightarrow> cellsSeeEachOther i j \<Longrightarrow> g ! i \<noteq> g ! j"
    unfolding partialOK_def by blast+
  from cp canPlace_peers[OF len pos]
  have free: "\<And>j. j < 81 \<Longrightarrow> cellsSeeEachOther pos j \<Longrightarrow> g ! j \<noteq> n" by blast
  let ?g = "g[pos := n]"
  have at: "?g ! pos = n" using len pos by simp
  have other: "\<And>i. i \<noteq> pos \<Longrightarrow> ?g ! i = g ! i" by simp
  have 1: "\<forall>i<Suc pos. 1 \<le> ?g ! i \<and> ?g ! i \<le> 9"
  proof (intro allI impI)
    fix i assume "i < Suc pos"
    then consider "i = pos" | "i < pos" by linarith
    then show "1 \<le> ?g ! i \<and> ?g ! i \<le> 9"
    proof cases
      case 1 then show ?thesis using at n by simp
    next
      case 2 then show ?thesis using rng[of i] other[of i] by simp
    qed
  qed
  have 2: "\<forall>i<81. Suc pos \<le> i \<longrightarrow> ?g ! i = 0"
  proof (intro allI impI)
    fix i :: nat assume "i < 81" "Suc pos \<le> i"
    then show "?g ! i = 0" using zero[of i] other[of i] by simp
  qed
  have 3: "\<forall>i<Suc pos. \<forall>j<Suc pos. i \<noteq> j \<and> cellsSeeEachOther i j \<longrightarrow> ?g ! i \<noteq> ?g ! j"
  proof (intro allI impI)
    fix i j assume i: "i < Suc pos" and j: "j < Suc pos" and ij: "i \<noteq> j \<and> cellsSeeEachOther i j"
    consider (a) "i = pos" "j < pos" | (b) "j = pos" "i < pos" | (c) "i < pos" "j < pos"
      using i j ij by linarith
    then show "?g ! i \<noteq> ?g ! j"
    proof cases
      case a
      have "j < 81" using a pos by linarith
      moreover have "cellsSeeEachOther pos j" using ij a by simp
      ultimately have "g ! j \<noteq> n" by (rule free)
      then show ?thesis using a at other[of j] by simp
    next
      case b
      have "i < 81" using b pos by linarith
      moreover have "cellsSeeEachOther pos i" using ij b see_sym[of i j] by simp
      ultimately have "g ! i \<noteq> n" by (rule free)
      then show ?thesis using b at other[of i] by simp
    next
      case c
      then have "g ! i \<noteq> g ! j" using cons[of i j] ij by blast
      then show ?thesis using c other[of i] other[of j] by simp
    qed
  qed
  show ?thesis unfolding partialOK_def using len 1 2 3 by simp
qed

lemma blocked:
  assumes ok: "partialOK pos g" and pos: "pos < 81" and n: "n \<noteq> 0"
    and cp: "\<not> canPlace g (pos div 9) (pos mod 9) n"
  shows "\<exists>j<pos. cellsSeeEachOther pos j \<and> g ! j = n"
proof -
  from ok have len: "length g = 81"
    and zero: "\<And>i. i < 81 \<Longrightarrow> pos \<le> i \<Longrightarrow> g ! i = 0"
    unfolding partialOK_def by blast+
  from cp canPlace_peers[OF len pos]
  obtain j where j: "j < 81" "cellsSeeEachOther pos j" "g ! j = n" by blast
  have "j < pos"
  proof (rule ccontr)
    assume "\<not> j < pos"
    then have "g ! j = 0" using zero[of j] j(1) by simp
    then show False using j(3) n by simp
  qed
  then show ?thesis using j by blast
qed

lemma complete_clash:
  assumes "partialOK 81 sol" "i < 81" "j < 81" "i \<noteq> j" "cellsSeeEachOther i j"
  shows "sol ! i \<noteq> sol ! j"
  using assms unfolding partialOK_def by blast

lemma complete_range:
  assumes "partialOK 81 sol" "i < 81"
  shows "sol ! i \<in> {1..9}"
  using assms unfolding partialOK_def by simp

lemma digits_set: "set [1, 2, 3, 4, 5, 6, 7, 8, 9 :: nat] = {1..9}"
  by auto

lemma solve_correct:
  shows "shufOK I shuf \<Longrightarrow> pos \<le> 81 \<Longrightarrow> partialOK pos (fst st) \<Longrightarrow> I (snd st) \<Longrightarrow>
           solveSpec I pos {1..9} (fst st) (solve shuf pos st)"
    and "shufOK I shuf \<Longrightarrow> pos' < 81 \<Longrightarrow> partialOK pos' (fst st') \<Longrightarrow> I (snd st') \<Longrightarrow>
           set ns \<subseteq> {1..9} \<Longrightarrow>
           solveSpec I pos' (set ns) (fst st') (tryNumbers shuf pos' ns st')"
proof (induction shuf pos st and shuf pos' ns st' rule: solve_tryNumbers.induct)
  case (1 shuf pos grid rng)
  show ?case
  proof (cases "pos = 81")
    case True
    then show ?thesis using "1.prems"(3,4) by (simp add: solveSpec_def)
  next
    case False
    then have lt: "pos < 81" and n81: "\<not> 81 < pos" using "1.prems"(2) by simp_all
    obtain numbers rng' where sh: "shuf [1, 2, 3, 4, 5, 6, 7, 8, 9] rng = (numbers, rng')"
      by (cases "shuf [1, 2, 3, 4, 5, 6, 7, 8, 9] rng")
    from "1.prems"(1)[unfolded shufOK_def] "1.prems"(4)[simplified] sh
    have ms: "mset numbers = mset [1, 2, 3, 4, 5, 6, 7, 8, 9]" and I': "I rng'"
      by (metis fst_conv, metis snd_conv)
    from ms have st: "set numbers = {1..9}"
      using mset_eq_setD[OF ms] digits_set by simp
    have "solveSpec I pos (set numbers) (fst (grid, rng')) (tryNumbers shuf pos numbers (grid, rng'))"
      using "1.IH"[OF False n81 refl sh[symmetric] "1.prems"(1) lt] "1.prems"(3) I' st by simp
    then show ?thesis using False n81 sh st by simp
  qed
next
  case (2 shuf pos grid rng)
  then show ?case by (simp add: solveSpec_def noExt_def)
next
  case (3 shuf pos num rest grid rng)
  from "3.prems"(3) have ok: "partialOK pos grid" by simp
  from "3.prems"(4) have Irng: "I rng" by simp
  from "3.prems"(5) have num: "1 \<le> num" "num \<le> 9" and rest: "set rest \<subseteq> {1..9}" by simp_all
  from ok have len: "length grid = 81" and zero: "grid ! pos = 0"
    using "3.prems"(2) unfolding partialOK_def by simp_all
  show ?case
  proof (cases "canPlace grid (pos div 9) (pos mod 9) num")
    case True
    let ?g1 = "grid[pos := num]"
    have ok1: "partialOK (Suc pos) ?g1" by (rule place_ok[OF ok "3.prems"(2) num True])
    obtain b g' s' where res: "solve shuf (pos + 1) (?g1, rng) = (b, g', s')"
      by (cases "solve shuf (pos + 1) (?g1, rng)")
    have sp1: "solveSpec I (pos + 1) {1..9} ?g1 (b, g', s')"
      using "3.IH"(1)[OF True "3.prems"(1)] "3.prems"(2) ok1 Irng res by simp
    show ?thesis
    proof (cases b)
      case True
      with sp1 have "I s'" "partialOK 81 g'" by (simp_all add: solveSpec_def)
      then show ?thesis using \<open>canPlace grid (pos div 9) (pos mod 9) num\<close> res True
        by (simp add: solveSpec_def)
    next
      case False
      with sp1 have Is1: "I s'" and g1eq: "g' = ?g1" and ne: "noExt (pos + 1) ?g1 {1..9}"
        by (simp_all add: solveSpec_def)
      have restore: "g'[pos := 0] = grid" using g1eq list_update_id[of grid pos] zero by simp
      have p81: "pos + 1 < 81"
      proof (rule ccontr)
        assume "\<not> pos + 1 < 81"
        then have "pos + 1 = 81" using "3.prems"(2) by simp
        then show False using res False by simp
      qed
      have noext1: "\<not> (\<exists>sol. partialOK 81 sol \<and> (\<forall>i<pos + 1. sol ! i = ?g1 ! i))"
      proof
        assume "\<exists>sol. partialOK 81 sol \<and> (\<forall>i<pos + 1. sol ! i = ?g1 ! i)"
        then obtain sol where sol: "partialOK 81 sol" "\<forall>i<pos + 1. sol ! i = ?g1 ! i" by blast
        have "sol ! (pos + 1) \<in> {1..9}" by (rule complete_range[OF sol(1) p81])
        with sol ne show False unfolding noExt_def by blast
      qed
      have sp2: "solveSpec I pos (set rest) grid (tryNumbers shuf pos rest (grid, s'))"
        using "3.IH"(2)[OF True res[symmetric] _ refl "3.prems"(1) "3.prems"(2)] False restore ok Is1 rest by simp
      obtain b2 g2 s2 where res2: "tryNumbers shuf pos rest (grid, s') = (b2, g2, s2)"
        by (cases "tryNumbers shuf pos rest (grid, s')")
      have final: "tryNumbers shuf pos (num # rest) (grid, rng) = (b2, g2, s2)"
        using \<open>canPlace grid (pos div 9) (pos mod 9) num\<close> res False restore res2 by simp
      show ?thesis
      proof (cases b2)
        case True
        then show ?thesis using sp2 res2 final by (simp add: solveSpec_def)
      next
        case b2f: False
        with sp2 res2 have Is2: "I s2" and g2: "g2 = grid" and ne2: "noExt pos grid (set rest)"
          by (simp_all add: solveSpec_def)
        have "noExt pos grid (set (num # rest))"
          unfolding noExt_def
        proof
          assume "\<exists>sol. partialOK 81 sol \<and> (\<forall>i<pos. sol ! i = grid ! i) \<and> sol ! pos \<in> set (num # rest)"
          then obtain sol where sol: "partialOK 81 sol" "\<forall>i<pos. sol ! i = grid ! i"
            "sol ! pos \<in> set (num # rest)" by blast
          show False
          proof (cases "sol ! pos = num")
            case True
            have "\<forall>i<pos + 1. sol ! i = ?g1 ! i"
            proof (intro allI impI)
              fix i assume "i < pos + 1"
              then consider "i = pos" | "i < pos" by linarith
              then show "sol ! i = ?g1 ! i"
              proof cases
                case 1 then show ?thesis using True len "3.prems"(2) by simp
              next
                case 2 then show ?thesis using sol(2) by simp
              qed
            qed
            with sol(1) noext1 show False by blast
          next
            case False
            with sol(3) have "sol ! pos \<in> set rest" by simp
            with sol(1,2) ne2 show False unfolding noExt_def by blast
          qed
        qed
        then show ?thesis using final b2f Is2 g2 by (simp add: solveSpec_def)
      qed
    qed
  next
    case False
    have n0: "num \<noteq> 0" using num by simp
    from blocked[OF ok "3.prems"(2) n0 False]
    obtain j where j: "j < pos" "cellsSeeEachOther pos j" "grid ! j = num" by blast
    have sp2: "solveSpec I pos (set rest) grid (tryNumbers shuf pos rest (grid, rng))"
      using "3.IH"(3)[OF False "3.prems"(1) "3.prems"(2)] ok Irng rest by simp
    obtain b2 g2 s2 where res2: "tryNumbers shuf pos rest (grid, rng) = (b2, g2, s2)"
      by (cases "tryNumbers shuf pos rest (grid, rng)")
    have final: "tryNumbers shuf pos (num # rest) (grid, rng) = (b2, g2, s2)"
      using False res2 by simp
    show ?thesis
    proof (cases b2)
      case True
      then show ?thesis using sp2 res2 final by (simp add: solveSpec_def)
    next
      case b2f: False
      with sp2 res2 have Is2: "I s2" and g2: "g2 = grid" and ne2: "noExt pos grid (set rest)"
        by (simp_all add: solveSpec_def)
      have "noExt pos grid (set (num # rest))"
        unfolding noExt_def
      proof
        assume "\<exists>sol. partialOK 81 sol \<and> (\<forall>i<pos. sol ! i = grid ! i) \<and> sol ! pos \<in> set (num # rest)"
        then obtain sol where sol: "partialOK 81 sol" "\<forall>i<pos. sol ! i = grid ! i"
          "sol ! pos \<in> set (num # rest)" by blast
        show False
        proof (cases "sol ! pos = num")
          case True
          have "sol ! j = num" using sol(2) j(1,3) by simp
          moreover have "j < 81" "pos \<noteq> j" using j(1) "3.prems"(2) by simp_all
          ultimately show False
            using complete_clash[OF sol(1) "3.prems"(2) \<open>j < 81\<close> \<open>pos \<noteq> j\<close> j(2)] True by simp
        next
          case False
          with sol(3) have "sol ! pos \<in> set rest" by simp
          with sol(1,2) ne2 show False unfolding noExt_def by blast
        qed
      qed
      then show ?thesis using final b2f Is2 g2 by (simp add: solveSpec_def)
    qed
  qed
qed

subsection \<open>The search from the empty grid succeeds\<close>

lemma completeCheck_example: "completeCheck exampleSolution"
  by code_simp

lemma completeCheck_partialOK:
  assumes "completeCheck g"
  shows "partialOK 81 g"
proof -
  from assms have len: "length g = 81"
    and rng: "\<And>v. v \<in> set g \<Longrightarrow> 1 \<le> v \<and> v \<le> 9"
    and cp: "\<And>pos. pos < 81 \<Longrightarrow> canPlace (g[pos := 0]) (pos div 9) (pos mod 9) (g ! pos)"
    unfolding completeCheck_def list_all_iff by simp_all
  have 1: "\<forall>i<81. 1 \<le> g ! i \<and> g ! i \<le> 9"
  proof (intro allI impI)
    fix i :: nat assume "i < 81"
    then have "g ! i \<in> set g" using len by simp
    then show "1 \<le> g ! i \<and> g ! i \<le> 9" by (rule rng)
  qed
  have 3: "\<forall>i<81. \<forall>j<81. i \<noteq> j \<and> cellsSeeEachOther i j \<longrightarrow> g ! i \<noteq> g ! j"
  proof (intro allI impI)
    fix i j :: nat assume i: "i < 81" and j: "j < 81" and ij: "i \<noteq> j \<and> cellsSeeEachOther i j"
    have "length (g[i := 0]) = 81" using len by simp
    from canPlace_peers[OF this i, of "g ! i"] cp[OF i] j ij
    have "g[i := 0] ! j \<noteq> g ! i" by blast
    then show "g ! i \<noteq> g ! j" using ij by simp
  qed
  show ?thesis unfolding partialOK_def using len 1 3 by simp
qed

lemma partialOK_example: "partialOK 81 exampleSolution"
  by (rule completeCheck_partialOK[OF completeCheck_example])

lemma partialOK_empty: "partialOK 0 (replicate 81 0)"
  unfolding partialOK_def by simp

lemma solve_from_empty:
  assumes sh: "shufOK I shuf" and Is: "I s"
  shows "\<exists>g s'. solve shuf 0 (replicate 81 0, s) = (True, g, s') \<and> partialOK 81 g \<and> I s'"
proof -
  obtain b g s' where res: "solve shuf 0 (replicate 81 0, s) = (b, g, s')"
    by (cases "solve shuf 0 (replicate 81 0, s)")
  have sp: "solveSpec I 0 {1..9} (replicate 81 0) (b, g, s')"
    using solve_correct(1)[OF sh, of 0 "(replicate 81 0, s)"] partialOK_empty Is res by simp
  show ?thesis
  proof (cases b)
    case True
    then show ?thesis using sp res by (simp add: solveSpec_def)
  next
    case False
    with sp have "noExt 0 (replicate 81 0) {1..9}" by (simp add: solveSpec_def)
    moreover have "exampleSolution ! 0 \<in> {1..9}"
      by (rule complete_range[OF partialOK_example]) simp
    ultimately show ?thesis using partialOK_example unfolding noExt_def by blast
  qed
qed

lemma generateCompleteGrid_ok:
  assumes "streamOK w"
  shows "partialOK 81 (fst (generateCompleteGrid w)) \<and> streamOK (snd (generateCompleteGrid w))"
  using solve_from_empty[of streamOK shuffleArray w, OF shufOK_random assms] unfolding generateCompleteGrid_def by force

lemma generateSeededGrid_ok: "partialOK 81 (fst (generateSeededGrid rng))"
  using solve_from_empty[of "\<lambda>s. True" shuffleArraySeeded rng, OF shufOK_seeded] unfolding generateSeededGrid_def by force

subsection \<open>Rows, columns and boxes of a complete grid\<close>

lemma upt3: "[0..<3] = [0, 1, 2]" by (simp add: upt_rec)
lemma upt9: "[0..<9] = [0, 1, 2, 3, 4, 5, 6, 7, 8]" by (simp add: upt_rec)

lemma unit_distinct:
  assumes ok: "partialOK 81 g" and u: "unitOK u"
  shows "distinct (map ((!) g) u)"
proof -
  have "inj_on ((!) g) (set u)"
  proof (rule inj_onI)
    fix i j assume i: "i \<in> set u" and j: "j \<in> set u" and e: "g ! i = g ! j"
    show "i = j"
    proof (rule ccontr)
      assume ne: "i \<noteq> j"
      from u i j ne have "i < 81" "j < 81" "cellsSeeEachOther i j" unfolding unitOK_def by blast+
      from complete_clash[OF ok this(1,2) ne this(3)] e show False by simp
    qed
  qed
  moreover from u have "distinct u" unfolding unitOK_def by simp
  ultimately show ?thesis by (simp add: distinct_map)
qed

lemma unit_perm:
  assumes ok: "partialOK 81 g" and u: "unitOK u"
  shows "mset (map ((!) g) u) = mset [1, 2, 3, 4, 5, 6, 7, 8, 9]"
proof -
  let ?vs = "map ((!) g) u"
  have d: "distinct ?vs" by (rule unit_distinct[OF ok u])
  have sub: "set ?vs \<subseteq> {1..9}"
  proof
    fix v assume "v \<in> set ?vs"
    then obtain i where "i \<in> set u" "v = g ! i" by auto
    moreover then have "i < 81" using u unfolding unitOK_def by blast
    ultimately show "v \<in> {1..9}" using complete_range[OF ok] by simp
  qed
  have "card (set ?vs) = 9" using d u distinct_card[of ?vs] unfolding unitOK_def by simp
  then have "card (set ?vs) = card {1..9::nat}" by simp
  with sub have "set ?vs = {1..9}" by (intro card_subset_eq) simp_all
  then have "set ?vs = set [1, 2, 3, 4, 5, 6, 7, 8, 9]" using digits_set by simp
  moreover have "distinct [1, 2, 3, 4, 5, 6, 7, 8, 9 :: nat]" by simp
  ultimately show ?thesis using d by (simp only: set_eq_iff_mset_eq_distinct)
qed

lemma row_member:
  assumes "i \<in> set (getRowIndices r)"
  shows "\<exists>a<9. i = r * 9 + a"
  using assms unfolding getRowIndices_def set_map set_upt image_iff Bex_def atLeastLessThan_iff
  by blast

lemma col_member:
  assumes "i \<in> set (getColIndices c)"
  shows "\<exists>a<9. i = a * 9 + c"
  using assms unfolding getColIndices_def set_map set_upt image_iff Bex_def atLeastLessThan_iff
  by blast

lemma unitOK_row: assumes "r < 9" shows "unitOK (getRowIndices r)"
proof -
  have "distinct (getRowIndices r)" unfolding getRowIndices_def
    by (simp add: distinct_map inj_on_def)
  moreover have "length (getRowIndices r) = 9" unfolding getRowIndices_def by simp
  moreover have "\<forall>i\<in>set (getRowIndices r). i < 81"
  proof
    fix i assume "i \<in> set (getRowIndices r)"
    from row_member[OF this] obtain a where "a < 9" "i = r * 9 + a" by blast
    then show "i < 81" using assms by simp
  qed
  moreover have "\<forall>i\<in>set (getRowIndices r). \<forall>j\<in>set (getRowIndices r). i \<noteq> j \<longrightarrow> cellsSeeEachOther i j"
  proof (intro ballI impI)
    fix i j assume "i \<in> set (getRowIndices r)" "j \<in> set (getRowIndices r)"
    then obtain a b where "a < 9" "i = r * 9 + a" "b < 9" "j = r * 9 + b"
      using row_member by blast
    then have "i div 9 = r" "j div 9 = r" by (simp_all only: dm9)
    then show "cellsSeeEachOther i j" unfolding see_iff by simp
  qed
  ultimately show ?thesis unfolding unitOK_def by blast
qed

lemma unitOK_col: assumes "c < 9" shows "unitOK (getColIndices c)"
proof -
  have "distinct (getColIndices c)" unfolding getColIndices_def
    by (simp add: distinct_map inj_on_def)
  moreover have "length (getColIndices c) = 9" unfolding getColIndices_def by simp
  moreover have "\<forall>i\<in>set (getColIndices c). i < 81"
  proof
    fix i assume "i \<in> set (getColIndices c)"
    from col_member[OF this] obtain a where "a < 9" "i = a * 9 + c" by blast
    then show "i < 81" using assms by simp
  qed
  moreover have "\<forall>i\<in>set (getColIndices c). \<forall>j\<in>set (getColIndices c). i \<noteq> j \<longrightarrow> cellsSeeEachOther i j"
  proof (intro ballI impI)
    fix i j assume "i \<in> set (getColIndices c)" "j \<in> set (getColIndices c)"
    then obtain a b where "i = a * 9 + c" "j = b * 9 + c"
      using col_member by blast
    then have "i mod 9 = c" "j mod 9 = c" using assms by (simp_all only: dm9)
    then show "cellsSeeEachOther i j" unfolding see_iff by simp
  qed
  ultimately show ?thesis unfolding unitOK_def by blast
qed

lemma box_member:
  assumes "i \<in> set (getBoxIndices br bc)"
  shows "\<exists>r<3. \<exists>c<3. i = (br * 3 + r) * 9 + (bc * 3 + c)"
proof -
  from assms have "i \<in> (\<Union>r\<in>set [0..<3]. (\<lambda>c. (br * 3 + r) * 9 + (bc * 3 + c)) ` set [0..<3])"
    unfolding getBoxIndices_def set_concat set_map image_image .
  then show ?thesis unfolding set_upt UN_iff image_iff Bex_def atLeastLessThan_iff by blast
qed

lemma unitOK_box: assumes "br < 3" "bc < 3" shows "unitOK (getBoxIndices br bc)"
proof -
  have "distinct (getBoxIndices br bc)" unfolding getBoxIndices_def upt3 by simp
  moreover have "length (getBoxIndices br bc) = 9" unfolding getBoxIndices_def upt3 by simp
  moreover have "\<forall>i\<in>set (getBoxIndices br bc). i < 81"
  proof
    fix i assume "i \<in> set (getBoxIndices br bc)"
    from box_member[OF this] obtain r c where "r < 3" "c < 3" "i = (br * 3 + r) * 9 + (bc * 3 + c)" by blast
    then show "i < 81" using assms by simp
  qed
  moreover have "\<forall>i\<in>set (getBoxIndices br bc). \<forall>j\<in>set (getBoxIndices br bc). i \<noteq> j \<longrightarrow> cellsSeeEachOther i j"
  proof (intro ballI impI)
    fix i j assume i: "i \<in> set (getBoxIndices br bc)" and j: "j \<in> set (getBoxIndices br bc)"
    have key: "k div 9 div 3 = br \<and> k mod 9 div 3 = bc" if "k \<in> set (getBoxIndices br bc)" for k
    proof -
      from box_member[OF that] obtain r c where rc: "r < 3" "c < 3" "k = (br * 3 + r) * 9 + (bc * 3 + c)" by blast
      have "bc * 3 + c < 9" using rc(2) assms(2) by linarith
      then have "k div 9 = br * 3 + r" "k mod 9 = bc * 3 + c" unfolding rc(3) by (simp_all only: dm9)
      then show ?thesis using rc(1,2) by (simp only: dm3 simp_thms)
    qed
    from key[OF i] key[OF j] show "cellsSeeEachOther i j" unfolding see_iff by simp
  qed
  ultimately show ?thesis unfolding unitOK_def by blast
qed

lemma scanUnit_distinct: "distinct vs \<Longrightarrow> set vs \<inter> set seen = {} \<Longrightarrow> scanUnit seen vs"
  by (induction vs arbitrary: seen) auto

lemma scan_unit_ok:
  assumes ok: "partialOK 81 g" and u: "unitOK u"
  shows "scanUnit [] (map (cellAt g) u)"
proof -
  have len: "length g = 81" using ok unfolding partialOK_def by simp
  have "\<forall>i\<in>set u. cellAt g i = Some (g ! i)"
    using u len unfolding unitOK_def by (simp add: cellAt_def)
  then have eq: "map (cellAt g) u = map Some (map ((!) g) u)" by simp
  have "distinct (map Some (map ((!) g) u))"
    using unit_distinct[OF ok u] by (subst distinct_map) (simp add: inj_on_def)
  then have "scanUnit [] (map Some (map ((!) g) u))" by (intro scanUnit_distinct) simp_all
  then show ?thesis by (simp only: eq)
qed

lemma isValidGrid_complete:
  assumes ok: "partialOK 81 g"
  shows "isValidGrid g"
proof -
  have r: "scanUnit [] (map (\<lambda>col. cellAt g (r * 9 + col)) [0..<9])" if "r < 9" for r
    using scan_unit_ok[OF ok unitOK_row[OF that]] by (simp add: getRowIndices_def comp_def)
  have c: "scanUnit [] (map (\<lambda>row. cellAt g (row * 9 + c)) [0..<9])" if "c < 9" for c
    using scan_unit_ok[OF ok unitOK_col[OF that]] by (simp add: getColIndices_def comp_def)
  have b: "scanUnit [] (concat (map (\<lambda>r. map (\<lambda>c.
                  cellAt g ((br * 3 + r) * 9 + (bc * 3 + c))) [0..<3]) [0..<3]))"
    if "br < 3" "bc < 3" for br bc
    using scan_unit_ok[OF ok unitOK_box[OF that]]
    by (simp add: getBoxIndices_def map_concat comp_def)
  show ?thesis unfolding isValidGrid_def list_all_iff using r c b by simp
qed

subsection \<open>Removing cells\<close>

lemma removeCells_fold:
  "removeCells n k ps g = fold zeroAt (take (n - k) ps) g"
proof (induction ps arbitrary: k g)
  case Nil
  then show ?case by simp
next
  case (Cons p ps)
  show ?case
  proof (cases "n \<le> k")
    case True
    then show ?thesis by simp
  next
    case False
    then have "n - k = Suc (n - (k + 1))" by simp
    then show ?thesis using False Cons.IH[of "k + 1" "g[p := 0]"] by (simp add: zeroAt_def)
  qed
qed

lemma fold_zero_length: "length (fold zeroAt ps g) = length g"
  by (induction ps arbitrary: g) (simp_all add: zeroAt_def)

lemma fold_zero_nth:
  "i < length g \<Longrightarrow> fold zeroAt ps g ! i = (if i \<in> set ps then 0 else g ! i)"
proof (induction ps arbitrary: g)
  case Nil
  then show ?case by simp
next
  case (Cons p ps)
  have "i < length (zeroAt p g)" using Cons.prems by (simp add: zeroAt_def)
  from Cons.IH[OF this] show ?case using Cons.prems
    by (cases "i = p") (simp_all add: zeroAt_def)
qed

lemma count_members:
  assumes "distinct ps" "set ps \<subseteq> {0..<n}"
  shows "length (filter (\<lambda>i. i \<in> set ps) [0..<n]) = length ps"
proof -
  have "distinct (filter (\<lambda>i. i \<in> set ps) [0..<n])" by simp
  then have "length (filter (\<lambda>i. i \<in> set ps) [0..<n]) = card (set (filter (\<lambda>i. i \<in> set ps) [0..<n]))"
    by (simp only: distinct_card)
  also have "set (filter (\<lambda>i. i \<in> set ps) [0..<n]) = set ps" using assms(2) by auto
  also have "card (set ps) = length ps" using assms(1) by (rule distinct_card)
  finally show ?thesis .
qed

lemma removal_props:
  assumes len: "length sol = 81" and nz: "\<forall>i<81. sol ! i \<noteq> 0"
    and perm: "mset positions = mset [0..<81]" and n: "n \<le> 81"
  shows "length (removeCells n 0 positions sol) = 81"
    and "length (filter (\<lambda>v. v = 0) (removeCells n 0 positions sol)) = n"
    and "\<forall>i<81. removeCells n 0 positions sol ! i \<noteq> 0 \<longrightarrow> removeCells n 0 positions sol ! i = sol ! i"
proof -
  let ?ps = "take n positions"
  let ?pz = "removeCells n 0 positions sol"
  have pz: "?pz = fold zeroAt ?ps sol" by (simp add: removeCells_fold)
  have lp: "length positions = 81" using mset_eq_length[OF perm] by simp
  have dp: "distinct positions" using perm mset_eq_imp_distinct_iff[OF perm] by simp
  have sp: "set positions = {0..<81}" using mset_eq_setD[OF perm] by simp
  have d: "distinct ?ps" using dp by simp
  have s: "set ?ps \<subseteq> {0..<81}" using sp set_take_subset[of n positions] by blast
  have l: "length ?ps = n" using lp n by simp
  show L: "length ?pz = 81" using len by (simp add: pz fold_zero_length)
  have nth: "?pz ! i = (if i \<in> set ?ps then 0 else sol ! i)" if "i < 81" for i
    unfolding pz using fold_zero_nth[of i sol ?ps] that len by simp
  show "\<forall>i<81. ?pz ! i \<noteq> 0 \<longrightarrow> ?pz ! i = sol ! i"
  proof (intro allI impI)
    fix i assume "i < 81" "?pz ! i \<noteq> 0"
    then show "?pz ! i = sol ! i" using nth[of i] by (simp split: if_splits)
  qed
  have "?pz = map ((!) ?pz) [0..<81]" using map_nth[of ?pz] L by simp
  then have "filter (\<lambda>v. v = 0) ?pz = filter (\<lambda>v. v = 0) (map ((!) ?pz) [0..<81])" by simp
  then have "length (filter (\<lambda>v. v = 0) ?pz) = length (filter (\<lambda>i. ?pz ! i = 0) [0..<81])"
    by (simp only: filter_map length_map comp_def)
  also have "filter (\<lambda>i. ?pz ! i = 0) [0..<81] = filter (\<lambda>i. i \<in> set ?ps) [0..<81]"
  proof (rule filter_cong[OF refl])
    fix i assume "i \<in> set [0..<81]"
    then have i: "i < 81" by simp
    show "(?pz ! i = 0) = (i \<in> set ?ps)" using nth[OF i] nz i by simp
  qed
  also have "length (filter (\<lambda>i. i \<in> set ?ps) [0..<81]) = length ?ps" by (rule count_members[OF d s])
  finally show "length (filter (\<lambda>v. v = 0) ?pz) = n" using l by simp
qed

lemma cells_le: "81 - DIFFICULTY_CELLS d \<le> 81" by simp

lemma complete_nonzero: "partialOK 81 g \<Longrightarrow> \<forall>i<81. g ! i \<noteq> 0"
  unfolding partialOK_def by auto

lemma complete_length: "partialOK 81 g \<Longrightarrow> length g = 81"
  unfolding partialOK_def by simp

lemma createPuzzle_unfold:
  assumes "streamOK w"
  shows "createPuzzle d w =
     Some (\<lparr>puzzle = removeCells (81 - DIFFICULTY_CELLS d) 0
                (fst (shuffleArray [0..<81] (snd (generateCompleteGrid w))))
                (fst (generateCompleteGrid w)),
            solution = fst (generateCompleteGrid w)\<rparr>,
           snd (shuffleArray [0..<81] (snd (generateCompleteGrid w))))"
proof -
  have v: "isValidGrid (fst (generateCompleteGrid w))"
    using generateCompleteGrid_ok[OF assms] isValidGrid_complete by blast
  show ?thesis
    by (subst createPuzzle.simps) (simp add: v case_prod_beta Let_def)
qed

lemma createDailyPuzzle_unfold:
  "createDailyPuzzle ds d =
     createDailyPuzzleFromSolution
       (fst (generateSeededGrid (newSeededRandom (getDateSeed ds))))
       (snd (generateSeededGrid (newSeededRandom (getDateSeed ds)))) ds d"
proof -
  have v: "isValidGrid (fst (generateSeededGrid (newSeededRandom (getDateSeed ds))))"
    using generateSeededGrid_ok isValidGrid_complete by blast
  show ?thesis unfolding createDailyPuzzle_def by (simp add: v case_prod_beta Let_def)
qed


lemma shuffleArraySeeded_positions:
  "mset (fst (shuffleArraySeeded [0..<81] rng)) = mset [0..<81]"
  using shufOK_seeded unfolding shufOK_def by blast

section \<open>Claims on the generator\<close>

lemma solvedGrid_complete:
  assumes "partialOK 81 g"
  shows "solvedGrid g"
  unfolding solvedGrid_def isPermutationOfDigits_def
  using unit_perm[OF assms] unitOK_row unitOK_col unitOK_box complete_length[OF assms]
  by blast



text \<open>
  Claim C4. Every grid produced by a generator call is solved: the result of
  \<open>generateCompleteGrid\<close>, the result of \<open>generateSeededGrid\<close> from any state of the seeded
  generator, and the solution field of \<open>createPuzzle\<close> and of \<open>createDailyPuzzle\<close> have, in
  every row, column and box, a permutation of the digits 1-9. The backtracking search
  from the empty grid never fails, whatever the shuffles return.
\<close>

theorem generators_solved:
  assumes "streamOK w"
  shows "solvedGrid (fst (generateCompleteGrid w)) \<and>
         solvedGrid (fst (generateSeededGrid rng)) \<and>
         (\<exists>p w'. createPuzzle d w = Some (p, w') \<and> solvedGrid (solution p)) \<and>
         solvedGrid (solution (createDailyPuzzle ds d))"
proof -
  have 1: "solvedGrid (fst (generateCompleteGrid w))"
    using generateCompleteGrid_ok[OF assms] solvedGrid_complete by blast
  have 2: "solvedGrid (fst (generateSeededGrid r))" for r
    using generateSeededGrid_ok solvedGrid_complete by blast
  have 3: "\<exists>p w'. createPuzzle d w = Some (p, w') \<and> solvedGrid (solution p)"
    unfolding createPuzzle_unfold[OF assms] using 1 by simp
  have 4: "solvedGrid (solution (createDailyPuzzle ds d))"
    unfolding createDailyPuzzle_unfold createDailyPuzzleFromSolution_def
    using 2 by (simp add: case_prod_beta Let_def)
  from 1 2 3 4 show ?thesis by blast
qed

theorem generators_solved_witness:
  "streamOK (\<lambda>k. 1 / 2) \<and>
   solvedGrid (fst (generateCompleteGrid (\<lambda>k. 1 / 2))) \<and>
   solvedGrid (fst (generateSeededGrid (newSeededRandom 7))) \<and>
   (\<exists>p w'. createPuzzle Hard (\<lambda>k. 1 / 2) = Some (p, w') \<and> solvedGrid (solution p)) \<and>
   solvedGrid (solution (createDailyPuzzle ''2025-06-01'' Hard))"
proof -
  have h: "streamOK (\<lambda>k. 1 / 2)" by (simp add: streamOK_def)
  show ?thesis using h generators_solved[OF h, of "newSeededRandom 7" Hard "''2025-06-01''"] by simp
qed

text \<open>
  Claim C9. Every grid returned by \<open>generateCompleteGrid\<close> and by \<open>generateSeededGrid\<close>
  satisfies \<open>isValidGrid\<close>, so the test \<open>!isValidGrid(solution)\<close> is false wherever it is
  evaluated: \<open>createPuzzle\<close> returns without calling itself again, and \<open>createDailyPuzzle\<close>
  is the branch that keeps the first grid and its generator.
\<close>

theorem generated_grids_valid:
  assumes "streamOK w"
  shows "isValidGrid (fst (generateCompleteGrid w)) \<and>
         isValidGrid (fst (generateSeededGrid rng)) \<and>
         createPuzzle d w =
           Some (\<lparr>puzzle = removeCells (81 - DIFFICULTY_CELLS d) 0
                      (fst (shuffleArray [0..<81] (snd (generateCompleteGrid w))))
                      (fst (generateCompleteGrid w)),
                  solution = fst (generateCompleteGrid w)\<rparr>,
                 snd (shuffleArray [0..<81] (snd (generateCompleteGrid w)))) \<and>
         createDailyPuzzle ds d =
           createDailyPuzzleFromSolution
             (fst (generateSeededGrid (newSeededRandom (getDateSeed ds))))
             (snd (generateSeededGrid (newSeededRandom (getDateSeed ds)))) ds d"
  using generateCompleteGrid_ok[OF assms] generateSeededGrid_ok[of rng] isValidGrid_complete
    createPuzzle_unfold[OF assms, of d] createDailyPuzzle_unfold[of ds d]
  by blast

theorem generated_grids_valid_witness:
  "streamOK (\<lambda>k. 0) \<and> isValidGrid (fst (generateCompleteGrid (\<lambda>k. 0))) \<and>
   isValidGrid (fst (generateSeededGrid (newSeededRandom 0)))"
proof -
  have h: "streamOK (\<lambda>k. 0)" by (simp add: streamOK_def)
  show ?thesis
    using h generated_grids_valid[OF h, of "newSeededRandom 0" Easy "''2025-06-01''"] by simp
qed

lemma daily_seed_only:
  assumes "getDateSeed d1 = getDateSeed d2"
  shows "puzzle (createDailyPuzzle d1 diff) = puzzle (createDailyPuzzle d2 diff)"
    and "solution (createDailyPuzzle d1 diff) = solution (createDailyPuzzle d2 diff)"
  unfolding createDailyPuzzle_def createDailyPuzzleFromSolution_def assms
  by (simp_all add: case_prod_beta Let_def)

text \<open>
  Claim C1. \<open>createDailyPuzzle\<close> reads no ambient state: the model is a function of the
  date string and the difficulty, so two calls with the same arguments return the same
  record. The theorem states where the result comes from. The puzzle and the solution
  depend on the date string only through \<open>getDateSeed\<close> (two date strings with the same
  seed give the same 81 cells of both); the solution is the grid generated from
  \<open>SeededRandom(getDateSeed(d))\<close>, and the removed cells are chosen by a shuffle that draws
  from the state in which the grid generation left that same generator.
\<close>

theorem createDailyPuzzle_deterministic:
  "(\<forall>d'. getDateSeed d' = getDateSeed d \<longrightarrow>
      puzzle (createDailyPuzzle d' diff) = puzzle (createDailyPuzzle d diff) \<and>
      solution (createDailyPuzzle d' diff) = solution (createDailyPuzzle d diff)) \<and>
   length (puzzle (createDailyPuzzle d diff)) = 81 \<and>
   length (solution (createDailyPuzzle d diff)) = 81 \<and>
   (let rng0 = newSeededRandom (getDateSeed d);
        (sol, rng1) = generateSeededGrid rng0;
        (positions, rng2) = shuffleArraySeeded [0..<81] rng1
    in solution (createDailyPuzzle d diff) = sol \<and>
       puzzle (createDailyPuzzle d diff) =
         removeCells (81 - DIFFICULTY_CELLS diff) 0 positions sol)"
proof -
  let ?g = "generateSeededGrid (newSeededRandom (getDateSeed d))"
  have ok: "partialOK 81 (fst ?g)" by (rule generateSeededGrid_ok)
  note props = removal_props[OF complete_length[OF ok] complete_nonzero[OF ok]
      shuffleArraySeeded_positions[of "snd ?g"] cells_le[of diff]]
  have 1: "\<forall>d'. getDateSeed d' = getDateSeed d \<longrightarrow>
      puzzle (createDailyPuzzle d' diff) = puzzle (createDailyPuzzle d diff) \<and>
      solution (createDailyPuzzle d' diff) = solution (createDailyPuzzle d diff)"
    using daily_seed_only by blast
  have 2: "length (puzzle (createDailyPuzzle d diff)) = 81"
    unfolding createDailyPuzzle_unfold createDailyPuzzleFromSolution_def
    using props(1) by (simp add: case_prod_beta Let_def)
  have 3: "length (solution (createDailyPuzzle d diff)) = 81"
    unfolding createDailyPuzzle_unfold createDailyPuzzleFromSolution_def
    using complete_length[OF ok] by (simp add: case_prod_beta Let_def)
  have 4: "(let rng0 = newSeededRandom (getDateSeed d);
        (sol, rng1) = generateSeededGrid rng0;
        (positions, rng2) = shuffleArraySeeded [0..<81] rng1
    in solution (createDailyPuzzle d diff) = sol \<and>
       puzzle (createDailyPuzzle d diff) =
         removeCells (81 - DIFFICULTY_CELLS diff) 0 positions sol)"
    unfolding createDailyPuzzle_unfold createDailyPuzzleFromSolution_def
    by (simp add: case_prod_beta Let_def)
  from 1 2 3 4 show ?thesis by blast
qed

lemma seed_collision: "getDateSeed ''BB'' = getDateSeed ''Aa''"
  by (simp add: getDateSeed_def hashStep_def)

theorem createDailyPuzzle_deterministic_witness:
  "getDateSeed ''BB'' = getDateSeed ''Aa'' \<and>
   puzzle (createDailyPuzzle ''BB'' Hard) = puzzle (createDailyPuzzle ''Aa'' Hard) \<and>
   solution (createDailyPuzzle ''BB'' Hard) = solution (createDailyPuzzle ''Aa'' Hard)"
  using createDailyPuzzle_deterministic[of "''Aa''" Hard] seed_collision by blast

section \<open>The hint solver: lemmas\<close>

subsection \<open>Sets and candidates\<close>

lemma setAdd_set: "set (setAdd s x) = insert x (set s)"
  by (auto simp: setAdd_def)

lemma foldl_setAdd_set: "set (foldl setAdd s xs) = set s \<union> set xs"
  by (induction xs arbitrary: s) (auto simp: setAdd_set)

lemma newSet_set: "set (newSet xs) = set xs"
  by (simp add: newSet_def foldl_setAdd_set)

lemma foldl_setAdd_distinct:
  "distinct (s @ xs) \<Longrightarrow> foldl setAdd s xs = s @ xs"
  by (induction xs arbitrary: s) (auto simp: setAdd_def)

lemma newSet_distinct: "distinct xs \<Longrightarrow> newSet xs = xs"
  using foldl_setAdd_distinct[of "[]" xs] by (simp add: newSet_def)

lemma digits_upt: "[1, 2, 3, 4, 5, 6, 7, 8, 9] = [1..<10]"
  by (simp add: upt_rec)

lemma getPossibleValues_distinct: "distinct (getPossibleValues grid index)"
  unfolding getPossibleValues_def Let_def digits_upt by simp

lemma getCandidates_distinct: "distinct (getCandidates grid notes index)"
  using getPossibleValues_distinct[of grid index] by (simp add: getCandidates_def Let_def)

lemma getAllCandidates_nth:
  "index < 81 \<Longrightarrow> getAllCandidates grid notes ! index = getCandidates grid notes index"
  by (simp add: getAllCandidates_def newSet_distinct getCandidates_distinct)

lemma getAllCandidates_length: "length (getAllCandidates grid notes) = 81"
  by (simp add: getAllCandidates_def)

subsection \<open>Loops that return the first hint\<close>

lemma firstSome_None: "(\<forall>x\<in>set xs. f x = None) \<Longrightarrow> firstSome f xs = None"
  by (induction xs) simp_all


lemma firstSome_append:
  "(\<forall>y\<in>set xs. f y = None) \<Longrightarrow> firstSome f (xs @ ys) = firstSome f ys"
  by (induction xs) simp_all

lemma overUnits_None: "(\<forall>u name. cu u name = None) \<Longrightarrow> overUnits cu = None"
  by (simp add: overUnits_def firstSome_None)


subsection \<open>A grid without empty cells\<close>

lemma noEmpty_full: "0 \<notin> set grid \<Longrightarrow> noEmpty grid"
  unfolding noEmpty_def cellAt_def by (auto simp: in_set_conv_nth)

lemma noEmpty_candidates: "noEmpty grid \<Longrightarrow> noCands (getAllCandidates grid notes)"
  unfolding noCands_def noEmpty_def
  by (simp add: getAllCandidates_nth getCandidates_def)

lemma row_lt: "r \<in> set [0..<9] \<Longrightarrow> i \<in> set (getRowIndices r) \<Longrightarrow> i < 81"
  using unitOK_row[of r] unfolding unitOK_def by simp

lemma col_lt: "c \<in> set [0..<9] \<Longrightarrow> i \<in> set (getColIndices c) \<Longrightarrow> i < 81"
  using unitOK_col[of c] unfolding unitOK_def by simp

lemma box_lt: "br \<in> set [0..<3] \<Longrightarrow> bc \<in> set [0..<3] \<Longrightarrow> i \<in> set (getBoxIndices br bc) \<Longrightarrow> i < 81"
  using unitOK_box[of br bc] unfolding unitOK_def by simp

lemma no_cells_with:
  assumes "noCands c" "\<forall>i\<in>set u. i < 81"
  shows "filter (\<lambda>i. num \<in> set (c ! i)) u = []"
  using assms unfolding noCands_def by (simp add: filter_empty_conv)

lemma no_empty_cells:
  assumes "noEmpty grid"
  shows "filter (\<lambda>i. cellAt grid i = Some 0 \<and> P i) u = []"
    and "filter (\<lambda>i. cellAt grid i = Some 0) u = []"
  using assms unfolding noEmpty_def by (simp_all add: filter_empty_conv)

lemma full_invalidNotes: "noEmpty grid \<Longrightarrow> findInvalidNotes grid notes c = None"
  unfolding findInvalidNotes_def
  by (rule firstSome_None) (simp add: invalidNotesAt_def noEmpty_def)

lemma full_lastFreeIn: "noEmpty grid \<Longrightarrow> lastFreeIn grid c u label = None"
  by (simp add: lastFreeIn_def no_empty_cells)

lemma full_lastFree: "noEmpty grid \<Longrightarrow> findLastFreeCell grid c = None"
  by (simp add: findLastFreeCell_def firstSome_None full_lastFreeIn)

lemma full_nakedSingle: "noEmpty grid \<Longrightarrow> findNakedSingle grid c = None"
  unfolding findNakedSingle_def
  by (rule firstSome_None) (simp add: nakedSingleAt_def noEmpty_def)

lemma full_hiddenSingleIn:
  assumes "noCands c" "\<forall>i\<in>set u. i < 81"
  shows "hiddenSingleIn grid c u expl = None"
  unfolding hiddenSingleIn_def
  by (rule firstSome_None) (simp add: no_cells_with[OF assms] Let_def)

lemma full_hiddenSingle: "noCands c \<Longrightarrow> findHiddenSingle grid c = None"
  unfolding findHiddenSingle_def
  by (simp add: firstSome_None full_hiddenSingleIn row_lt col_lt box_lt del: set_upt)

lemma full_pointing: "noCands c \<Longrightarrow> findPointingPairs grid c notes = None"
  unfolding findPointingPairs_def pointingInBox_def Let_def
  by (intro firstSome_None ballI) (simp add: no_cells_with box_lt del: set_upt)

lemma full_nakedPairs: "noEmpty grid \<Longrightarrow> findNakedPairs grid c notes = None"
  unfolding findNakedPairs_def
  by (rule overUnits_None) (simp add: nakedPairsUnit_def no_empty_cells)

lemma full_nakedTriples: "noEmpty grid \<Longrightarrow> findNakedTriples grid c notes = None"
  unfolding findNakedTriples_def
  by (rule overUnits_None) (simp add: nakedTriplesUnit_def no_empty_cells)

lemma full_hiddenPairs: "noEmpty grid \<Longrightarrow> findHiddenPairs grid c notes = None"
  unfolding findHiddenPairs_def
  by (rule overUnits_None)
     (simp add: hiddenPairsUnit_def no_empty_cells firstSome_None split: prod.splits)

lemma full_hiddenTriples: "noEmpty grid \<Longrightarrow> findHiddenTriples grid c notes = None"
  unfolding findHiddenTriples_def
  by (rule overUnits_None)
     (simp add: hiddenTriplesUnit_def no_empty_cells firstSome_None split: prod.splits)

lemma full_xWingRows: "noCands c \<Longrightarrow> xWingRows c notes num = None"
  unfolding xWingRows_def
  by (intro firstSome_None ballI) (simp add: no_cells_with row_lt del: set_upt)

lemma full_xWingCols: "noCands c \<Longrightarrow> xWingCols c notes num = None"
  unfolding xWingCols_def
  by (intro firstSome_None ballI) (simp add: no_cells_with col_lt del: set_upt)

lemma full_xWing: "noCands c \<Longrightarrow> findXWing grid c notes = None"
  unfolding findXWing_def
  by (rule firstSome_None) (simp add: full_xWingRows full_xWingCols)

lemma full_yWing: "noEmpty grid \<Longrightarrow> findYWing grid c notes = None"
  by (simp add: findYWing_def no_empty_cells)

lemma full_linesWithNum_rows:
  "noCands c \<Longrightarrow> linesWithNum c num getRowIndices f = []"
  unfolding linesWithNum_def
  by (simp add: no_cells_with row_lt del: set_upt)

lemma full_linesWithNum_cols:
  "noCands c \<Longrightarrow> linesWithNum c num getColIndices f = []"
  unfolding linesWithNum_def
  by (simp add: no_cells_with col_lt del: set_upt)

lemma full_swordfish: "noCands c \<Longrightarrow> findSwordfish grid c notes = None"
  unfolding findSwordfish_def
  by (rule firstSome_None)
     (simp add: swordfishRows_def swordfishCols_def full_linesWithNum_rows full_linesWithNum_cols)

subsection \<open>Elimination hints remove recorded notes\<close>
























subsection \<open>Placement hints\<close>















subsection \<open>Without notes there is nothing to remove\<close>



lemma firstSome_upt_first:
  assumes "X < n" "\<forall>i<X. f i = None" "f X = Some h"
  shows "firstSome f [0..<n] = Some h"
proof -
  have "[0..<n] = [0..<X] @ [X..<n]"
    using assms(1) upt_add_eq_append[of 0 X "n - X"] by simp
  moreover have "[X..<n] = X # [Suc X..<n]" using assms(1) by (rule upt_conv_Cons)
  ultimately have split: "[0..<n] = [0..<X] @ X # [Suc X..<n]" by simp
  have "\<forall>y\<in>set [0..<X]. f y = None" using assms(2) by simp
  then have "firstSome f ([0..<X] @ X # [Suc X..<n]) = firstSome f (X # [Suc X..<n])"
    by (rule firstSome_append)
  then show ?thesis unfolding split using assms(3) by simp
qed

section \<open>Claims on the hint solver\<close>

text \<open>
  Claim C5. For every grid, notes array and cell index: a cell that is not empty (or
  an index outside the grid) has no candidates; an empty cell with notes has the
  possible values that are among its notes, so that the candidate set is the
  intersection of the two; an empty cell without notes has all its possible values;
  in every case the candidates are possible values. The candidate set that the solver
  uses for a cell is the one \<open>getCandidates\<close> returns.
\<close>

theorem candidates_narrowed_by_notes:
  "(cellAt grid index \<noteq> Some 0 \<longrightarrow> getCandidates grid notes index = []) \<and>
   (cellAt grid index = Some 0 \<and> notesAt notes index \<noteq> [] \<longrightarrow>
      getCandidates grid notes index =
        filter (\<lambda>n. n \<in> set (notesAt notes index)) (getPossibleValues grid index) \<and>
      set (getCandidates grid notes index) =
        set (getPossibleValues grid index) \<inter> set (notesAt notes index)) \<and>
   (cellAt grid index = Some 0 \<and> notesAt notes index = [] \<longrightarrow>
      getCandidates grid notes index = getPossibleValues grid index) \<and>
   set (getCandidates grid notes index) \<subseteq> set (getPossibleValues grid index) \<and>
   (index < 81 \<longrightarrow> getAllCandidates grid notes ! index = getCandidates grid notes index)"
  by (auto simp: getCandidates_def Let_def getAllCandidates_nth)

theorem candidates_narrowed_by_notes_witness:
  "cellAt exampleSolution 0 \<noteq> Some 0 \<and> getCandidates exampleSolution noSets 0 = [] \<and>
   cellAt twoSinglesGrid 0 = Some 0 \<and> notesAt (noSets[0 := [1, 7]]) 0 \<noteq> [] \<and>
   set (getCandidates twoSinglesGrid (noSets[0 := [1, 7]]) 0) =
     set (getPossibleValues twoSinglesGrid 0) \<inter> set (notesAt (noSets[0 := [1, 7]]) 0) \<and>
   notesAt noSets 0 = [] \<and>
   getCandidates twoSinglesGrid noSets 0 = getPossibleValues twoSinglesGrid 0 \<and>
   (0::nat) < 81 \<and>
   getAllCandidates twoSinglesGrid noSets ! 0 = getCandidates twoSinglesGrid noSets 0"
proof -
  have a: "cellAt exampleSolution 0 \<noteq> Some 0" by (simp add: cellAt_def exampleSolution_def)
  have b: "cellAt twoSinglesGrid 0 = Some 0" by (simp add: cellAt_def twoSinglesGrid_def)
  have c: "notesAt (noSets[0 := [1, 7]]) 0 \<noteq> []" by (simp add: notesAt_def noSets_def)
  have d: "notesAt noSets 0 = []" by (simp add: notesAt_def noSets_def)
  have e: "(0::nat) < 81" by simp
  show ?thesis
    using a b c d e
      candidates_narrowed_by_notes[of exampleSolution 0 noSets]
      candidates_narrowed_by_notes[of twoSinglesGrid 0 "noSets[0 := [1, 7]]"]
      candidates_narrowed_by_notes[of twoSinglesGrid 0 noSets]
    by (intro conjI) blast+
qed

text \<open>
  Claim C10. The result of \<open>getHint\<close> does not depend on its solution argument: two
  calls that differ only in the solution return the same result.
\<close>

theorem getHint_ignores_solution:
  "getHint grid s1 notes = getHint grid s2 notes"
  by (simp add: getHint_def)

text \<open>
  Claim C2. \<open>getHint\<close> computes the candidates of all cells once and returns the first
  hint among the results of the twelve detectors taken in this order: Invalid Notes,
  Last Free Cell, Naked Single, Hidden Single, Pointing Pairs/Triples, Naked Pairs,
  Hidden Pairs, Naked Triples, Hidden Triples, X-Wing, Y-Wing, Swordfish; none if all
  twelve return none.
\<close>

theorem getHint_priority_order:
  "getHint grid sol notes =
     (let candidates = getAllCandidates grid notes
      in firstResult
           [findInvalidNotes grid notes candidates,
            findLastFreeCell grid candidates,
            findNakedSingle grid candidates,
            findHiddenSingle grid candidates,
            findPointingPairs grid candidates notes,
            findNakedPairs grid candidates notes,
            findHiddenPairs grid candidates notes,
            findNakedTriples grid candidates notes,
            findHiddenTriples grid candidates notes,
            findXWing grid candidates notes,
            findYWing grid candidates notes,
            findSwordfish grid candidates notes])"
  by (simp add: getHint_def Let_def split: option.splits)

text \<open>
  Claim C7. For a grid without an empty cell, and every notes array and solution,
  \<open>getHint\<close> returns none, and so does each of the twelve detectors on the candidates
  of that grid. The grid need not be consistent for this.
\<close>

theorem getHint_full_grid:
  assumes "0 \<notin> set grid"
  shows "getHint grid sol notes = None \<and>
    (let c = getAllCandidates grid notes
     in findInvalidNotes grid notes c = None \<and> findLastFreeCell grid c = None \<and>
        findNakedSingle grid c = None \<and> findHiddenSingle grid c = None \<and>
        findPointingPairs grid c notes = None \<and> findNakedPairs grid c notes = None \<and>
        findHiddenPairs grid c notes = None \<and> findNakedTriples grid c notes = None \<and>
        findHiddenTriples grid c notes = None \<and> findXWing grid c notes = None \<and>
        findYWing grid c notes = None \<and> findSwordfish grid c notes = None)"
proof -
  have e: "noEmpty grid" by (rule noEmpty_full[OF assms])
  have c: "noCands (getAllCandidates grid notes)" by (rule noEmpty_candidates[OF e])
  note all = full_invalidNotes[OF e] full_lastFree[OF e] full_nakedSingle[OF e]
    full_hiddenSingle[OF c] full_pointing[OF c] full_nakedPairs[OF e]
    full_hiddenPairs[OF e] full_nakedTriples[OF e] full_hiddenTriples[OF e]
    full_xWing[OF c] full_yWing[OF e] full_swordfish[OF c]
  have 1: "getHint grid sol notes = None"
    unfolding getHint_def Let_def by (simp only: all option.case)
  show ?thesis unfolding Let_def by (simp only: 1 all simp_thms)
qed

theorem getHint_full_grid_witness:
  "0 \<notin> set exampleSolution \<and> getHint exampleSolution exampleSolution noSets = None"
proof -
  have h: "0 \<notin> set exampleSolution" by (simp add: exampleSolution_def)
  show ?thesis using h getHint_full_grid[OF h, of exampleSolution noSets] by simp
qed



text \<open>
  Claim C8, as stated, fails on the code: in \<open>twoSinglesGrid\<close> without notes, cell 13 is
  empty and its candidate set is \<open>{8}\<close>, neither Invalid Notes nor Last Free Cell applies
  anywhere, and \<open>getHint\<close> returns the Naked Single of cell 0 with value 1, which comes
  first in the scan.
\<close>

theorem naked_single_not_first_counterexample:
  "findInvalidNotes twoSinglesGrid noSets (getAllCandidates twoSinglesGrid noSets) = None \<and>
   findLastFreeCell twoSinglesGrid (getAllCandidates twoSinglesGrid noSets) = None \<and>
   cellAt twoSinglesGrid 13 = Some 0 \<and>
   getAllCandidates twoSinglesGrid noSets ! 13 = [8] \<and>
   map_option technique (getHint twoSinglesGrid exampleSolution noSets) = Some ''Naked Single'' \<and>
   map_option cellIndex (getHint twoSinglesGrid exampleSolution noSets) = Some 0 \<and>
   map_option hintValue (getHint twoSinglesGrid exampleSolution noSets) = Some 1"
  by code_simp

text \<open>
  Claim C8, amended. When neither Invalid Notes nor Last Free Cell applies and \<open>X\<close> is
  the first cell, in index order, that is empty with a candidate set of exactly one
  member \<open>v\<close>, \<open>getHint\<close> returns a Naked Single hint with \<open>cellIndex = X\<close> and
  \<open>value = v\<close>.
\<close>

theorem getHint_first_naked_single:
  assumes inv: "findInvalidNotes grid notes (getAllCandidates grid notes) = None"
    and lf: "findLastFreeCell grid (getAllCandidates grid notes) = None"
    and X: "X < 81" "cellAt grid X = Some 0" "getAllCandidates grid notes ! X = [v]"
    and first: "\<forall>i<X. cellAt grid i = Some 0 \<longrightarrow> length (getAllCandidates grid notes ! i) \<noteq> 1"
  shows "\<exists>h. getHint grid sol notes = Some h \<and> technique h = ''Naked Single'' \<and>
              cellIndex h = X \<and> hintValue h = v"
proof -
  let ?c = "getAllCandidates grid notes"
  obtain h where h: "nakedSingleAt grid ?c X = Some h" "technique h = ''Naked Single''"
    "cellIndex h = X" "hintValue h = v"
    using X(2,3) by (simp add: nakedSingleAt_def Let_def)
  have "\<forall>i<X. nakedSingleAt grid ?c i = None"
    using first by (simp add: nakedSingleAt_def)
  from firstSome_upt_first[OF X(1) this h(1)]
  have "findNakedSingle grid ?c = Some h" by (simp only: findNakedSingle_def)
  then have "getHint grid sol notes = Some h"
    unfolding getHint_def Let_def by (simp only: inv lf option.case)
  with h(2,3,4) show ?thesis by blast
qed

theorem getHint_first_naked_single_witness:
  "findInvalidNotes lateSinglesGrid noSets (getAllCandidates lateSinglesGrid noSets) = None \<and>
   findLastFreeCell lateSinglesGrid (getAllCandidates lateSinglesGrid noSets) = None \<and>
   (4::nat) < 81 \<and> cellAt lateSinglesGrid 4 = Some 0 \<and>
   getAllCandidates lateSinglesGrid noSets ! 4 = [5] \<and>
   cellAt lateSinglesGrid 0 \<noteq> Some 0 \<and> cellAt lateSinglesGrid 1 \<noteq> Some 0 \<and>
   cellAt lateSinglesGrid 2 \<noteq> Some 0 \<and> cellAt lateSinglesGrid 3 \<noteq> Some 0 \<and>
   (\<exists>h. getHint lateSinglesGrid exampleSolution noSets = Some h \<and>
        technique h = ''Naked Single'' \<and> cellIndex h = 4 \<and> hintValue h = 5)"
proof -
  have a: "findInvalidNotes lateSinglesGrid noSets (getAllCandidates lateSinglesGrid noSets) = None"
    by code_simp
  have b: "findLastFreeCell lateSinglesGrid (getAllCandidates lateSinglesGrid noSets) = None"
    by code_simp
  have c: "(4::nat) < 81" by simp
  have d: "cellAt lateSinglesGrid 4 = Some 0" by code_simp
  have e: "getAllCandidates lateSinglesGrid noSets ! 4 = [5]" by code_simp
  have g: "cellAt lateSinglesGrid 0 \<noteq> Some 0" "cellAt lateSinglesGrid 1 \<noteq> Some 0"
    "cellAt lateSinglesGrid 2 \<noteq> Some 0" "cellAt lateSinglesGrid 3 \<noteq> Some 0"
    by (simp_all add: cellAt_def lateSinglesGrid_def)
  have f: "\<forall>i<4. cellAt lateSinglesGrid i = Some 0 \<longrightarrow>
      length (getAllCandidates lateSinglesGrid noSets ! i) \<noteq> 1"
  proof (intro allI impI)
    fix i :: nat assume "i < 4" and z: "cellAt lateSinglesGrid i = Some 0"
    then consider "i = 0" | "i = 1" | "i = 2" | "i = 3" by linarith
    then have "cellAt lateSinglesGrid i \<noteq> Some 0" using g by cases simp_all
    with z show "length (getAllCandidates lateSinglesGrid noSets ! i) \<noteq> 1" by simp
  qed
  from getHint_first_naked_single[OF a b c d e f, of exampleSolution] a b c d e g
  show ?thesis by (intro conjI)
qed

end
